theory Spec2Isabelle
  imports Complex_Main "HOL-Library.Word"
begin

unbundle bit_operations_syntax

section \<open>The shared store\<close>

text \<open>
  All components talk to one persisted store through the Supabase client. A table is a
  list of rows. Timestamps are ISO-8601 strings in the source (\<open>new Date().toISOString()\<close>);
  the model keeps the instant they denote, in milliseconds.
\<close>

type_synonym timestamp = nat

text \<open>
  A store request either is executed or comes back with an error object
  (\<open>{ data: null, error }\<close>). The error a request comes back with, if any, is an input of
  the model; a request that comes back with an error has changed nothing.
\<close>

type_synonym fault = "string option"

record 'a response =
  rdata :: "'a option"
  rerror :: "string option"

text \<open>The columns of table \<open>orders\<close> read or written by the operations below.\<close>

record order =
  oid :: string
  user_id :: "string option"
  status :: string
  payment_status :: "string option"
  payment_method :: "string option"
  rider_id :: "string option"
  total_cents :: "int option"
  eta_minutes :: "int option"
  created_at :: timestamp
  updated_at :: "timestamp option"
  delivered_at :: "timestamp option"
  cancelled_at :: "timestamp option"

text \<open>\<open>from(t).select(..).<filters>\<close>: the rows that pass the filters.\<close>

definition select_where :: "('r \<Rightarrow> bool) \<Rightarrow> fault \<Rightarrow> 'r list \<Rightarrow> 'r list response" where
  "select_where P flt tbl =
     (case flt of
        Some e \<Rightarrow> \<lparr>rdata = None, rerror = Some e\<rparr>
      | None \<Rightarrow> \<lparr>rdata = Some (filter P tbl), rerror = None\<rparr>)"

text \<open>
  \<open>from(t).update(patch).<filters>\<close>: every row that passes the filters is patched, the
  others stay; the patched rows are what a trailing \<open>.select()\<close> returns.
\<close>

definition update_where ::
  "('r \<Rightarrow> bool) \<Rightarrow> ('r \<Rightarrow> 'r) \<Rightarrow> fault \<Rightarrow> 'r list \<Rightarrow> 'r list \<times> 'r list response" where
  "update_where P f flt tbl =
     (case flt of
        Some e \<Rightarrow> (tbl, \<lparr>rdata = None, rerror = Some e\<rparr>)
      | None \<Rightarrow> (map (\<lambda>r. if P r then f r else r) tbl,
                 \<lparr>rdata = Some (map f (filter P tbl)), rerror = None\<rparr>))"

text \<open>
  \<open>from(t).update(patch).<filters>.select().maybeSingle()\<close>: no matching row gives
  \<open>data: null\<close> without an error, one matching row is patched and returned, and several
  matching rows are an error of the store (code PGRST116) that leaves the table as it was.
\<close>

definition update_maybeSingle ::
  "('r \<Rightarrow> bool) \<Rightarrow> ('r \<Rightarrow> 'r) \<Rightarrow> fault \<Rightarrow> 'r list \<Rightarrow> 'r list \<times> 'r response" where
  "update_maybeSingle P f flt tbl =
     (case flt of
        Some e \<Rightarrow> (tbl, \<lparr>rdata = None, rerror = Some e\<rparr>)
      | None \<Rightarrow>
          (case filter P tbl of
             [] \<Rightarrow> (tbl, \<lparr>rdata = None, rerror = None\<rparr>)
           | [r] \<Rightarrow> (map (\<lambda>r. if P r then f r else r) tbl, \<lparr>rdata = Some (f r), rerror = None\<rparr>)
           | _ \<Rightarrow> (tbl, \<lparr>rdata = None, rerror = Some ''PGRST116''\<rparr>)))"

text \<open>\<open>from(t).insert(row)\<close>: the row is appended.\<close>

definition insert_row :: "'r \<Rightarrow> fault \<Rightarrow> 'r list \<Rightarrow> 'r list" where
  "insert_row r flt tbl = (case flt of Some e \<Rightarrow> tbl | None \<Rightarrow> tbl @ [r])"

text \<open>The persisted state of the order with a given id, if there is one.\<close>

definition get_order :: "string \<Rightarrow> order list \<Rightarrow> order option" where
  "get_order k tbl = find (\<lambda>r. oid r = k) tbl"

section \<open>RiderApp: claim and delivery progression\<close>

text \<open>The \<open>Order\<close> type of the rider's view (the joined address and user are display only).\<close>

record rider_order =
  v_id :: string
  v_status :: string
  v_payment_status :: "string option"
  v_total_cents :: "int option"
  v_created_at :: timestamp
  v_rider_id :: "string option"

text \<open>
  The component state the handlers touch. A null and an empty \<open>riderId\<close> are both
  falsy (\<open>if (!riderId) return\<close>). \<open>alerts\<close> collects the messages shown with
  \<open>alert\<close>, \<open>console\<close> the errors passed to \<open>console.error\<close>.
\<close>

record rider_ui =
  riderId :: "string option"
  orders :: "rider_order list"
  loading :: bool
  error :: "string option"
  updatingId :: "string option"
  alerts :: "string list"
  console :: "string list"

definition hasActiveOrderForRider :: "fault \<Rightarrow> string option \<Rightarrow> order list \<Rightarrow> bool" where
  "hasActiveOrderForRider flt rid tbl =
     (case rid of
        None \<Rightarrow> False
      | Some r \<Rightarrow>
          if r = [] then False else
          (let res = select_where
                       (\<lambda>row. rider_id row = Some r \<and> status row \<in> set [''assigned'', ''en_route''])
                       flt tbl
           in case rerror res of
                Some e \<Rightarrow> False
              | None \<Rightarrow> (case rdata res of None \<Rightarrow> False | Some rows \<Rightarrow> length (take 1 rows) > 0)))"

definition normalize :: "order \<Rightarrow> rider_order" where
  "normalize row =
     \<lparr>v_id = oid row, v_status = status row, v_payment_status = payment_status row,
      v_total_cents = total_cents row, v_created_at = created_at row, v_rider_id = rider_id row\<rparr>"

text \<open>
  \<open>loadOrders\<close>: the paid orders in a non-terminal status, oldest first (rows created at
  the same instant keep their table order).
\<close>

definition loadOrders :: "fault \<Rightarrow> rider_ui \<Rightarrow> order list \<Rightarrow> rider_ui" where
  "loadOrders flt ui tbl =
     (let ui1 = ui\<lparr>loading := True, error := None\<rparr>;
          res = select_where
                  (\<lambda>row. status row \<in> set [''pending'', ''assigned'', ''en_route'']
                          \<and> payment_status row = Some ''paid'')
                  flt tbl;
          ui2 = ui1\<lparr>loading := False\<rparr>
      in case rerror res of
           Some e \<Rightarrow> ui2\<lparr>console := console ui2 @ [e], error := Some e\<rparr>
         | None \<Rightarrow>
             ui2\<lparr>orders := map normalize
                               (sort_key created_at (case rdata res of None \<Rightarrow> [] | Some rows \<Rightarrow> rows))\<rparr>)"

text \<open>The conditional update of \<open>acceptOrder\<close>, as the store executes it.\<close>

definition claimable :: "order \<Rightarrow> bool" where
  "claimable row \<longleftrightarrow>
     status row = ''pending'' \<and> payment_status row = Some ''paid'' \<and> rider_id row = None"

definition claim_patch :: "string \<Rightarrow> timestamp \<Rightarrow> order \<Rightarrow> order" where
  "claim_patch rid now row = row\<lparr>status := ''assigned'', rider_id := Some rid, updated_at := Some now\<rparr>"

definition claim_update ::
  "string \<Rightarrow> timestamp \<Rightarrow> string \<Rightarrow> fault \<Rightarrow> order list \<Rightarrow> order list \<times> order response" where
  "claim_update rid now orderId flt tbl =
     update_maybeSingle (\<lambda>row. oid row = orderId \<and> claimable row) (claim_patch rid now) flt tbl"

text \<open>
  \<open>acceptOrder\<close>. The three faults are those of the pre-check read, of the conditional
  update and of the reload.
\<close>

definition acceptOrder ::
  "fault \<Rightarrow> fault \<Rightarrow> fault \<Rightarrow> timestamp \<Rightarrow> string \<Rightarrow> rider_ui \<Rightarrow> order list \<Rightarrow> rider_ui \<times> order list" where
  "acceptOrder f_chk f_upd f_load now orderId ui tbl =
     (case riderId ui of
        None \<Rightarrow> (ui, tbl)
      | Some rid \<Rightarrow>
          if rid = [] then (ui, tbl) else
          (let ui1 = ui\<lparr>error := None, updatingId := Some orderId\<rparr> in
           if hasActiveOrderForRider f_chk (Some rid) tbl then
             (ui1\<lparr>updatingId := None,
                  alerts := alerts ui1 @
                    [''You already have an active delivery. Finish it before taking another one.'']\<rparr>,
              tbl)
           else
             (let (tbl', res) = claim_update rid now orderId f_upd tbl;
                  ui2 = ui1\<lparr>updatingId := None\<rparr>
              in case rerror res of
                   Some e \<Rightarrow> (ui2\<lparr>console := console ui2 @ [e], error := Some e\<rparr>, tbl')
                 | None \<Rightarrow>
                     (case rdata res of
                        None \<Rightarrow>
                          (loadOrders f_load
                             (ui2\<lparr>alerts := alerts ui2 @
                                    [''This order is no longer available (taken or not paid).'']\<rparr>)
                             tbl',
                           tbl')
                      | Some row \<Rightarrow> (loadOrders f_load ui2 tbl', tbl')))))"

text \<open>
  The three delivery transitions. Each is an update filtered by order id, rider and prior
  status; a store error is shown, anything else reloads the list.
\<close>

definition rider_transition ::
  "(order \<Rightarrow> bool) \<Rightarrow> (order \<Rightarrow> order) \<Rightarrow> fault \<Rightarrow> fault \<Rightarrow> string \<Rightarrow> rider_ui \<Rightarrow> order list
     \<Rightarrow> rider_ui \<times> order list" where
  "rider_transition P f f_upd f_load orderId ui tbl =
     (let ui1 = ui\<lparr>error := None, updatingId := Some orderId\<rparr>;
          (tbl', res) = update_where P f f_upd tbl;
          ui2 = ui1\<lparr>updatingId := None\<rparr>
      in case rerror res of
           Some e \<Rightarrow> (ui2\<lparr>console := console ui2 @ [e], error := Some e\<rparr>, tbl')
         | None \<Rightarrow> (loadOrders f_load ui2 tbl', tbl'))"

definition startDelivery ::
  "fault \<Rightarrow> fault \<Rightarrow> timestamp \<Rightarrow> string \<Rightarrow> rider_ui \<Rightarrow> order list \<Rightarrow> rider_ui \<times> order list" where
  "startDelivery f_upd f_load now orderId ui tbl =
     (case riderId ui of
        None \<Rightarrow> (ui, tbl)
      | Some rid \<Rightarrow>
          if rid = [] then (ui, tbl) else
          rider_transition
            (\<lambda>row. oid row = orderId \<and> rider_id row = Some rid \<and> status row = ''assigned'')
            (\<lambda>row. row\<lparr>status := ''en_route'', eta_minutes := Some 10, updated_at := Some now\<rparr>)
            f_upd f_load orderId ui tbl)"

definition markDelivered ::
  "fault \<Rightarrow> fault \<Rightarrow> timestamp \<Rightarrow> string \<Rightarrow> rider_ui \<Rightarrow> order list \<Rightarrow> rider_ui \<times> order list" where
  "markDelivered f_upd f_load now orderId ui tbl =
     (case riderId ui of
        None \<Rightarrow> (ui, tbl)
      | Some rid \<Rightarrow>
          if rid = [] then (ui, tbl) else
          rider_transition
            (\<lambda>row. oid row = orderId \<and> rider_id row = Some rid \<and> status row = ''en_route'')
            (\<lambda>row. row\<lparr>status := ''delivered'', delivered_at := Some now, updated_at := Some now\<rparr>)
            f_upd f_load orderId ui tbl)"

text \<open>\<open>confirmFail\<close> is the answer to the confirmation dialog.\<close>

definition markUndeliverable ::
  "bool \<Rightarrow> fault \<Rightarrow> fault \<Rightarrow> timestamp \<Rightarrow> string \<Rightarrow> rider_ui \<Rightarrow> order list \<Rightarrow> rider_ui \<times> order list" where
  "markUndeliverable confirmFail f_upd f_load now orderId ui tbl =
     (case riderId ui of
        None \<Rightarrow> (ui, tbl)
      | Some rid \<Rightarrow>
          if rid = [] then (ui, tbl)
          else if \<not> confirmFail then (ui, tbl)
          else
            rider_transition
              (\<lambda>row. oid row = orderId \<and> rider_id row = Some rid
                      \<and> status row \<in> set [''assigned'', ''en_route''])
              (\<lambda>row. row\<lparr>status := ''failed'', cancelled_at := Some now, updated_at := Some now\<rparr>)
              f_upd f_load orderId ui tbl)"


section \<open>ClientApp: customer cancel\<close>

text \<open>The \<open>OrderStatus\<close> type: the customer's last fetched view of the order.\<close>

record order_status =
  s_id :: string
  s_status :: string
  s_eta_minutes :: "int option"
  s_created_at :: timestamp
  s_updated_at :: "timestamp option"
  s_rider_id :: "string option"
  s_payment_method :: "string option"
  s_payment_status :: "string option"
  s_total_cents :: "int option"

record client_ui =
  lastOrderId :: "string option"
  orderStatus :: "order_status option"
  loadingStatus :: bool
  client_error :: "string option"
  client_console :: "string list"

definition to_order_status :: "order \<Rightarrow> order_status" where
  "to_order_status row =
     \<lparr>s_id = oid row, s_status = status row, s_eta_minutes = eta_minutes row,
      s_created_at = created_at row, s_updated_at = updated_at row, s_rider_id = rider_id row,
      s_payment_method = payment_method row, s_payment_status = payment_status row,
      s_total_cents = total_cents row\<rparr>"

text \<open>
  \<open>fetchOrderStatus\<close>, polled every five seconds while an order is shown. \<open>.single()\<close>
  is an error unless exactly one row matches.
\<close>

definition fetchOrderStatus :: "fault \<Rightarrow> string \<Rightarrow> client_ui \<Rightarrow> order list \<Rightarrow> client_ui" where
  "fetchOrderStatus flt orderId ui tbl =
     (let ui1 = ui\<lparr>loadingStatus := True\<rparr>;
          res = select_where (\<lambda>row. oid row = orderId) flt tbl;
          ui2 = ui1\<lparr>loadingStatus := False\<rparr>
      in case rerror res of
           Some e \<Rightarrow> ui2\<lparr>client_console := client_console ui2 @ [e], client_error := Some e\<rparr>
         | None \<Rightarrow>
             (case rdata res of
                Some [row] \<Rightarrow> ui2\<lparr>orderStatus := Some (to_order_status row)\<rparr>
              | _ \<Rightarrow> ui2\<lparr>client_console := client_console ui2 @ [''PGRST116''],
                        client_error := Some ''PGRST116''\<rparr>))"

text \<open>The condition under which the page renders the button bound to \<open>handleCancelOrder\<close>.\<close>

definition cancel_button_shown :: "client_ui \<Rightarrow> bool" where
  "cancel_button_shown ui \<longleftrightarrow>
     lastOrderId ui \<noteq> None \<and> lastOrderId ui \<noteq> Some [] \<and>
     (case orderStatus ui of
        None \<Rightarrow> False
      | Some st \<Rightarrow> s_status st \<in> set [''pending'', ''assigned'', ''en_route''])"

text \<open>
  \<open>handleCancelOrder\<close>. \<open>ok\<close> is the answer to the confirmation dialog; the two
  timestamps are the two clock reads of the patch.
\<close>

definition handleCancelOrder ::
  "bool \<Rightarrow> fault \<Rightarrow> fault \<Rightarrow> timestamp \<Rightarrow> timestamp \<Rightarrow> client_ui \<Rightarrow> order list
     \<Rightarrow> client_ui \<times> order list" where
  "handleCancelOrder ok f_upd f_fetch now_c now_u ui tbl =
     (case lastOrderId ui of
        None \<Rightarrow> (ui, tbl)
      | Some k \<Rightarrow>
          if k = [] \<or> orderStatus ui = None then (ui, tbl)
          else if \<not> ok then (ui, tbl)
          else
            (let (tbl', res) =
                   update_where (\<lambda>row. oid row = k)
                     (\<lambda>row. row\<lparr>status := ''cancelled'', cancelled_at := Some now_c,
                                 updated_at := Some now_u\<rparr>)
                     f_upd tbl
             in case rerror res of
                  Some e \<Rightarrow> (ui\<lparr>client_console := client_console ui @ [e], client_error := Some e\<rparr>, tbl')
                | None \<Rightarrow> (fetchOrderStatus f_fetch k ui tbl', tbl')))"

section \<open>App: role resolution\<close>

datatype role = client | rider | admin

record app_ui =
  role :: "role option"
  resolvingRole :: bool
  app_error :: "string option"
  app_console :: "string list"

text \<open>
  What awaiting a promise gives: a value, or an exception with its \<open>message\<close> (if it has
  one).
\<close>

datatype 'a awaited = Resolved 'a | Rejected "string option"

text \<open>The \<open>{ data, error }\<close> of \<open>supabase.rpc('is_admin')\<close>; \<open>data\<close> is the boolean, if it is one.\<close>

record admin_response =
  isAdmin :: "bool option"
  adminError :: "string option"

text \<open>
  The race of \<open>safeIsAdminRpc\<close>: either the call settles before the timer fires, or the timer
  wins and resolves to \<open>{ data: null, error: null }\<close>.
\<close>

datatype rpc_outcome = SettlesFirst "admin_response awaited" | TimerFirst

definition safeIsAdminRpc :: "rpc_outcome \<Rightarrow> admin_response awaited" where
  "safeIsAdminRpc rpc =
     (case rpc of
        SettlesFirst r \<Rightarrow> r
      | TimerFirst \<Rightarrow> Resolved \<lparr>isAdmin = None, adminError = None\<rparr>)"

text \<open>
  The \<open>{ data, error }\<close> of the rider lookup (\<open>maybeSingle\<close>): the row found, given by
  its id, and the error, given by its code.
\<close>

record rider_response =
  riderRow :: "string option"
  riderError :: "string option"

text \<open>The \<open>catch\<close> and \<open>finally\<close> blocks of \<open>resolveRole\<close>.\<close>

definition resolveRole_catch :: "string option \<Rightarrow> app_ui \<Rightarrow> app_ui" where
  "resolveRole_catch msg ui =
     ui\<lparr>app_console := app_console ui @ [case msg of None \<Rightarrow> [] | Some m \<Rightarrow> m],
        app_error := Some (case msg of None \<Rightarrow> ''Unable to detect user role.'' | Some m \<Rightarrow> m),
        role := Some client,
        resolvingRole := False\<rparr>"

definition resolveRole :: "rpc_outcome \<Rightarrow> rider_response awaited \<Rightarrow> app_ui \<Rightarrow> app_ui" where
  "resolveRole rpc riderQuery ui =
     (let ui1 = ui\<lparr>resolvingRole := True, app_error := None\<rparr> in
      case safeIsAdminRpc rpc of
        Rejected msg \<Rightarrow> resolveRole_catch msg ui1
      | Resolved a \<Rightarrow>
          if adminError a = None \<and> isAdmin a = Some True
          then ui1\<lparr>role := Some admin, resolvingRole := False\<rparr>
          else
            (let ui2 = (case adminError a of
                          Some e \<Rightarrow> ui1\<lparr>app_console := app_console ui1 @ [e]\<rparr>
                        | None \<Rightarrow> ui1)
             in case riderQuery of
                  Rejected msg \<Rightarrow> resolveRole_catch msg ui2
                | Resolved r \<Rightarrow>
                    (let by_row = (if riderRow r \<noteq> None
                                   then ui2\<lparr>role := Some rider, resolvingRole := False\<rparr>
                                   else ui2\<lparr>role := Some client, resolvingRole := False\<rparr>)
                     in case riderError r of
                          None \<Rightarrow> by_row
                        | Some c \<Rightarrow>
                            if c \<noteq> ''PGRST116''
                            then ui2\<lparr>app_console := app_console ui2 @ [c],
                                     role := Some client, resolvingRole := False\<rparr>
                            else by_row)))"


section \<open>Edge function stripe-webhook\<close>

subsection \<open>Signature helpers\<close>

text \<open>
  The header, its parts, the secret and the raw body are strings of the language: sequences
  of UTF-16 code units. \<open>js\<close> writes an ASCII literal as such a string.
\<close>

type_synonym jsstring = "16 word list"

definition js :: "string \<Rightarrow> jsstring" where
  "js s = map (\<lambda>c. of_nat (of_char c)) s"

text \<open>
  \<open>TextEncoder.encode\<close>: UTF-8. A surrogate pair is one code point, a surrogate on its
  own is replaced by U+FFFD.
\<close>

definition utf8 :: "nat \<Rightarrow> 8 word list" where
  "utf8 cp =
     (if cp < 0x80 then [of_nat cp]
      else if cp < 0x800 then [of_nat (0xC0 + cp div 64), of_nat (0x80 + cp mod 64)]
      else if cp < 0x10000
      then [of_nat (0xE0 + cp div 4096), of_nat (0x80 + cp div 64 mod 64), of_nat (0x80 + cp mod 64)]
      else [of_nat (0xF0 + cp div 262144), of_nat (0x80 + cp div 4096 mod 64),
            of_nat (0x80 + cp div 64 mod 64), of_nat (0x80 + cp mod 64)])"

definition high_surrogate :: "16 word \<Rightarrow> bool" where
  "high_surrogate u \<longleftrightarrow> 0xD800 \<le> unat u \<and> unat u \<le> 0xDBFF"

definition low_surrogate :: "16 word \<Rightarrow> bool" where
  "low_surrogate u \<longleftrightarrow> 0xDC00 \<le> unat u \<and> unat u \<le> 0xDFFF"

definition scalar :: "16 word \<Rightarrow> nat" where
  "scalar u = (if high_surrogate u \<or> low_surrogate u then 0xFFFD else unat u)"

fun encode :: "jsstring \<Rightarrow> 8 word list" where
  "encode [] = []"
| "encode [u] = utf8 (scalar u)"
| "encode (u # v # us) =
     (if high_surrogate u \<and> low_surrogate v
      then utf8 (0x10000 + (unat u - 0xD800) * 0x400 + (unat v - 0xDC00)) @ encode us
      else utf8 (scalar u) @ encode (v # us))"

text \<open>
  \<open>timingSafeEqualBytes\<close>: the accumulator is a 32-bit integer, as the bitwise operators
  of the language make it.
\<close>

definition timingSafeEqualBytes :: "8 word list \<Rightarrow> 8 word list \<Rightarrow> bool" where
  "timingSafeEqualBytes a b =
     (if length a \<noteq> length b then False
      else fold (\<lambda>i out. out OR ucast (a ! i XOR b ! i)) [0..<length a] (0 :: 32 word) = 0)"

definition hex_digit :: "nat \<Rightarrow> 16 word" where
  "hex_digit n = js ''0123456789abcdef'' ! n"

text \<open>\<open>b.toString(16).padStart(2, "0")\<close> for a byte.\<close>

definition hex2 :: "8 word \<Rightarrow> jsstring" where
  "hex2 b = [hex_digit (unat b div 16), hex_digit (unat b mod 16)]"

text \<open>
  \<open>hmacSha256Hex\<close>. The HMAC-SHA256 of the Web Crypto API (\<open>importKey\<close> and \<open>sign\<close>) is
  the parameter \<open>sign\<close>, from key bytes and message bytes to the 32 bytes of the tag.
\<close>

definition hmacSha256Hex ::
  "(8 word list \<Rightarrow> 8 word list \<Rightarrow> 8 word list) \<Rightarrow> jsstring \<Rightarrow> jsstring \<Rightarrow> jsstring" where
  "hmacSha256Hex sign secret message = concat (map hex2 (sign (encode secret) (encode message)))"

text \<open>\<open>split\<close> at a separator, \<open>startsWith\<close>; \<open>slice(n)\<close> is \<open>drop n\<close>.\<close>

fun split :: "'a \<Rightarrow> 'a list \<Rightarrow> 'a list list" where
  "split sep [] = [[]]"
| "split sep (c # cs) =
     (if c = sep then [] # split sep cs
      else (case split sep cs of [] \<Rightarrow> [[c]] | p # ps \<Rightarrow> (c # p) # ps))"

definition startsWith :: "'a list \<Rightarrow> 'a list \<Rightarrow> bool" where
  "startsWith s p \<longleftrightarrow> take (length p) s = p"

text \<open>
  \<open>trim\<close> removes, at both ends, the white space and line terminators of the language:
  TAB, LF, VT, FF, CR, SPACE, U+00A0, U+1680, U+2000 to U+200A, U+2028, U+2029, U+202F,
  U+205F, U+3000 and U+FEFF.
\<close>

definition white_space :: "16 word list" where
  "white_space =
     [0x0009, 0x000A, 0x000B, 0x000C, 0x000D, 0x0020, 0x00A0, 0x1680,
      0x2000, 0x2001, 0x2002, 0x2003, 0x2004, 0x2005, 0x2006, 0x2007, 0x2008, 0x2009, 0x200A,
      0x2028, 0x2029, 0x202F, 0x205F, 0x3000, 0xFEFF]"

definition is_space :: "16 word \<Rightarrow> bool" where
  "is_space u \<longleftrightarrow> u \<in> set white_space"

definition trim :: "jsstring \<Rightarrow> jsstring" where
  "trim s = rev (dropWhile is_space (rev (dropWhile is_space s)))"

record stripe_signature =
  sig_t :: "jsstring option"
  sig_v1s :: "jsstring list"

definition parseStripeSignature :: "jsstring \<Rightarrow> stripe_signature" where
  "parseStripeSignature header =
     (let parts = map trim (split 0x2C header) in
      \<lparr>sig_t = map_option (drop 2) (find (\<lambda>p. startsWith p (js ''t='')) parts),
       sig_v1s = map (drop 3) (filter (\<lambda>p. startsWith p (js ''v1='')) parts)\<rparr>)"

subsection \<open>The handler\<close>

text \<open>The columns of table \<open>payments\<close>.\<close>

record payment =
  p_order_id :: string
  provider :: string
  provider_payment_id :: "string option"
  amount_cents :: int
  currency :: string
  p_status :: string
  p_created_at :: timestamp
  p_updated_at :: timestamp

record db =
  db_orders :: "order list"
  db_payments :: "payment list"

text \<open>
  What the handler reads of the parsed event: \<open>event.type\<close> and, of
  \<open>event.data.object\<close>, the fields \<open>id\<close>, \<open>metadata.order_id\<close>,
  \<open>client_reference_id\<close>, \<open>amount_total\<close> and \<open>currency\<close>, each absent or of the type the
  provider documents. Its strings are compared with and written to text columns of the
  store, and are kept as that text.
\<close>

record checkout_session =
  cs_id :: "string option"
  cs_metadata_order_id :: "string option"
  cs_client_reference_id :: "string option"
  cs_amount_total :: "int option"
  cs_currency :: "string option"

record event =
  ev_type :: "string option"
  ev_object :: "checkout_session option"

datatype webhook_body =
    WhError string
  | WhOk
  | WhOkNote string
  | WhOkIgnored "string option"

record 'b http_response =
  http_status :: nat
  http_body :: 'b

definition json :: "nat \<Rightarrow> 'b \<Rightarrow> 'b http_response" where
  "json st b = \<lparr>http_status = st, http_body = b\<rparr>"

record webhook_env =
  wh_SUPABASE_URL :: "string option"
  wh_SUPABASE_SERVICE_ROLE_KEY :: "string option"
  wh_STRIPE_WEBHOOK_SECRET :: "jsstring option"

record webhook_request =
  stripe_signature_header :: "jsstring option"
  raw_body :: jsstring

text \<open>
  What the handler takes from outside the repository: the HMAC of Web Crypto, \<open>Number\<close>
  (\<open>None\<close> for a result that \<open>Number.isFinite\<close> rejects), \<open>JSON.parse\<close> (\<open>Inl\<close> the message
  of the exception it throws), \<open>String.prototype.toUpperCase\<close> (the case mapping of
  Unicode), \<open>Date.now()\<close> in milliseconds, the instant of \<open>new Date()\<close>, and the faults of
  the three store requests.

  A finite \<open>Number\<close> is a double; the model keeps the real number it denotes and
  subtracts exactly. For a clock in seconds since 1970 this agrees with the double
  subtraction on the comparison with the tolerance: the difference of two doubles within
  a factor of two of each other is exact, and any other difference is far above 300.
\<close>

record webhook_ext =
  wh_sign :: "8 word list \<Rightarrow> 8 word list \<Rightarrow> 8 word list"
  wh_Number :: "jsstring \<Rightarrow> real option"
  wh_JSON_parse :: "jsstring \<Rightarrow> string + event"
  wh_toUpperCase :: "string \<Rightarrow> string"
  wh_Date_now :: nat
  wh_new_Date :: timestamp
  wh_f_orders :: fault
  wh_f_payments_update :: fault
  wh_f_payments_insert :: fault

definition falsy :: "'a list option \<Rightarrow> bool" where
  "falsy s \<longleftrightarrow> s = None \<or> s = Some []"

text \<open>The signature check of the handler: some \<open>v1\<close> passes the comparison.\<close>

definition signature_ok ::
  "(8 word list \<Rightarrow> 8 word list \<Rightarrow> 8 word list) \<Rightarrow> jsstring \<Rightarrow> jsstring \<Rightarrow> jsstring \<Rightarrow> jsstring list
     \<Rightarrow> bool" where
  "signature_ok sign webhookSecret t rawBody v1s =
     (let signedPayload = t @ js ''.'' @ rawBody;
          expectedHex = hmacSha256Hex sign webhookSecret signedPayload;
          expectedBytes = encode expectedHex
      in list_ex (\<lambda>v1. timingSafeEqualBytes expectedBytes (encode v1)) v1s)"

definition session_matches :: "string \<Rightarrow> string \<Rightarrow> payment \<Rightarrow> bool" where
  "session_matches orderId sessionId p \<longleftrightarrow>
     p_order_id p = orderId \<and> provider p = ''stripe'' \<and> provider_payment_id p = Some sessionId"

text \<open>The branch for \<open>checkout.session.completed\<close>.\<close>

definition checkout_completed :: "webhook_ext \<Rightarrow> string \<Rightarrow> string \<Rightarrow> checkout_session \<Rightarrow> db \<Rightarrow> db" where
  "checkout_completed ext orderId sessionId session d =
     (let nowIso = wh_new_Date ext;
          orders1 = fst (update_where (\<lambda>row. oid row = orderId)
                           (\<lambda>row. row\<lparr>payment_status := Some ''paid'', payment_method := Some ''card'',
                                       updated_at := Some nowIso\<rparr>)
                           (wh_f_orders ext) (db_orders d));
          (payments1, res) = update_where (session_matches orderId sessionId)
                               (\<lambda>p. p\<lparr>p_status := ''paid'', p_updated_at := nowIso\<rparr>)
                               (wh_f_payments_update ext) (db_payments d);
          payments2 =
            (if (case rdata res of None \<Rightarrow> True | Some updatedRows \<Rightarrow> length updatedRows = 0)
             then insert_row
                    \<lparr>p_order_id = orderId, provider = ''stripe'', provider_payment_id = Some sessionId,
                     amount_cents = (case cs_amount_total session of None \<Rightarrow> 0 | Some a \<Rightarrow> a),
                     currency = wh_toUpperCase ext
                                  (case cs_currency session of None \<Rightarrow> ''ZAR'' | Some c \<Rightarrow> c),
                     p_status = ''paid'', p_created_at = nowIso, p_updated_at = nowIso\<rparr>
                    (wh_f_payments_insert ext) payments1
             else payments1)
      in \<lparr>db_orders = orders1, db_payments = payments2\<rparr>)"

text \<open>The branch for \<open>checkout.session.expired\<close>.\<close>

definition checkout_expired :: "webhook_ext \<Rightarrow> string \<Rightarrow> string \<Rightarrow> db \<Rightarrow> db" where
  "checkout_expired ext orderId sessionId d =
     (let nowIso = wh_new_Date ext;
          payments1 = fst (update_where (session_matches orderId sessionId)
                             (\<lambda>p. p\<lparr>p_status := ''failed'', p_updated_at := nowIso\<rparr>)
                             (wh_f_payments_update ext) (db_payments d));
          orders1 = fst (update_where (\<lambda>row. oid row = orderId)
                           (\<lambda>row. row\<lparr>payment_status := Some ''unpaid'', updated_at := Some nowIso\<rparr>)
                           (wh_f_orders ext) (db_orders d))
      in \<lparr>db_orders = orders1, db_payments = payments1\<rparr>)"

text \<open>What follows the signature check: parsing and dispatch on the event.\<close>

definition process_event :: "webhook_ext \<Rightarrow> jsstring \<Rightarrow> db \<Rightarrow> webhook_body http_response \<times> db" where
  "process_event ext rawBody d =
     (case wh_JSON_parse ext rawBody of
        Inl msg \<Rightarrow> (json 500 (WhError msg), d)
      | Inr ev \<Rightarrow>
          (let sessionId = (case ev_object ev of None \<Rightarrow> None | Some s \<Rightarrow> cs_id s);
               orderId = (case ev_object ev of
                            None \<Rightarrow> None
                          | Some s \<Rightarrow> (case cs_metadata_order_id s of
                                         Some k \<Rightarrow> Some k
                                       | None \<Rightarrow> cs_client_reference_id s))
           in if falsy orderId \<or> falsy sessionId
              then (json 200 (WhOkNote ''no orderId/sessionId (ignored)''), d)
              else
                (case (orderId, sessionId, ev_object ev) of
                   (Some k, Some sid, Some s) \<Rightarrow>
                     if ev_type ev = Some ''checkout.session.completed''
                     then (json 200 WhOk, checkout_completed ext k sid s d)
                     else if ev_type ev = Some ''checkout.session.expired''
                     then (json 200 WhOk, checkout_expired ext k sid d)
                     else (json 200 (WhOkIgnored (ev_type ev)), d)
                 | _ \<Rightarrow> (json 200 (WhOkNote ''no orderId/sessionId (ignored)''), d))))"

definition stripe_webhook ::
  "webhook_ext \<Rightarrow> webhook_env \<Rightarrow> webhook_request \<Rightarrow> db \<Rightarrow> webhook_body http_response \<times> db" where
  "stripe_webhook ext env req d =
     (if falsy (wh_SUPABASE_URL env) \<or> falsy (wh_SUPABASE_SERVICE_ROLE_KEY env)
         \<or> falsy (wh_STRIPE_WEBHOOK_SECRET env)
      then (json 500 (WhError ''Missing SUPABASE_URL / SERVICE_ROLE_KEY / STRIPE_WEBHOOK_SECRET''), d)
      else
        (let webhookSecret = (case wh_STRIPE_WEBHOOK_SECRET env of None \<Rightarrow> [] | Some k \<Rightarrow> k);
             sigHeader = (case stripe_signature_header req of None \<Rightarrow> [] | Some h \<Rightarrow> h);
             rawBody = raw_body req;
             sg = parseStripeSignature sigHeader
         in case sig_t sg of
              None \<Rightarrow> (json 400 (WhError ''missing signature''), d)
            | Some t \<Rightarrow>
                if t = [] \<or> length (sig_v1s sg) = 0
                then (json 400 (WhError ''missing signature''), d)
                else
                  (case wh_Number ext t of
                     None \<Rightarrow> (json 400 (WhError ''invalid timestamp''), d)
                   | Some ts \<Rightarrow>
                       (let nowSec = wh_Date_now ext div 1000;
                            toleranceSec = 300
                        in if \<bar>real nowSec - ts\<bar> > toleranceSec
                           then (json 401 (WhError ''timestamp outside tolerance''), d)
                           else if \<not> signature_ok (wh_sign ext) webhookSecret t rawBody (sig_v1s sg)
                           then (json 401 (WhError ''invalid signature''), d)
                           else process_event ext rawBody d))))"


section \<open>Edge function create-checkout\<close>

text \<open>
  \<open>from(t).select(..).<filters>.maybeSingle()\<close>: no row gives \<open>data: null\<close>, one row is
  returned, several rows are an error (code PGRST116).
\<close>

definition select_maybeSingle :: "('r \<Rightarrow> bool) \<Rightarrow> fault \<Rightarrow> 'r list \<Rightarrow> 'r response" where
  "select_maybeSingle P flt tbl =
     (case flt of
        Some e \<Rightarrow> \<lparr>rdata = None, rerror = Some e\<rparr>
      | None \<Rightarrow>
          (case filter P tbl of
             [] \<Rightarrow> \<lparr>rdata = None, rerror = None\<rparr>
           | [r] \<Rightarrow> \<lparr>rdata = Some r, rerror = None\<rparr>
           | _ \<Rightarrow> \<lparr>rdata = None, rerror = Some ''PGRST116''\<rparr>))"

record checkout_env =
  co_STRIPE_SECRET_KEY :: "string option"
  co_CHECKOUT_SUCCESS_URL :: "string option"
  co_CHECKOUT_CANCEL_URL :: "string option"
  co_SUPABASE_URL :: "string option"
  co_SUPABASE_SERVICE_ROLE_KEY :: "string option"
  co_SUPABASE_ANON_KEY :: "string option"

text \<open>
  The request: its method, the \<open>order_id\<close> of its JSON payload (absent too when the body
  is not JSON) and its \<open>authorization\<close> header.
\<close>

record checkout_request =
  req_method :: string
  req_order_id :: "string option"
  req_authorization :: "string option"

text \<open>The \<open>{ data, error }\<close> of \<open>auth.getUser()\<close>: the error and \<open>data.user.id\<close>.\<close>

record auth_result =
  authErr :: "string option"
  auth_user_id :: "string option"

text \<open>The fields of the form sent to the provider that depend on the order.\<close>

record stripe_request =
  sr_success_url :: string
  sr_cancel_url :: string
  sr_client_reference_id :: string
  sr_unit_amount :: int
  sr_metadata_order_id :: string
  sr_metadata_user_id :: string

record stripe_session =
  ss_id :: "string option"
  ss_url :: "string option"

text \<open>
  The provider call: \<open>fetch\<close> or the reading of the JSON body throws, or there is a
  response with its \<open>ok\<close> flag and its parsed body.
\<close>

datatype fetch_result = FetchThrows string | FetchResponse bool stripe_session

datatype checkout_body =
    CoPreflight
  | CoError string
  | CoErrorDetails string string
  | CoOrderNotFound string
  | CoStripeError stripe_session
  | CoSession "string option" "string option"

text \<open>
  What the handler takes from outside the repository: \<open>auth.getUser()\<close> for an
  \<open>authorization\<close> header, the provider call, the instants of the two \<open>new Date()\<close>, and
  the faults of the three store requests.
\<close>

record checkout_ext =
  co_getUser :: "string \<Rightarrow> auth_result"
  co_fetch :: "stripe_request \<Rightarrow> fetch_result"
  co_new_Date_tag :: timestamp
  co_new_Date_payment :: timestamp
  co_f_select :: fault
  co_f_tag :: fault
  co_f_insert :: fault

text \<open>The update that tags the order with the card intent.\<close>

definition tag_card_intent :: "timestamp \<Rightarrow> string \<Rightarrow> fault \<Rightarrow> order list \<Rightarrow> order list" where
  "tag_card_intent now k flt tbl =
     fst (update_where (\<lambda>row. oid row = k)
            (\<lambda>row. row\<lparr>payment_method := Some ''card'', updated_at := Some now\<rparr>) flt tbl)"

text \<open>The form for the provider, before \<open>formEncode\<close>.\<close>

definition checkout_form :: "checkout_env \<Rightarrow> order \<Rightarrow> int \<Rightarrow> stripe_request" where
  "checkout_form env ord amount =
     \<lparr>sr_success_url = (case co_CHECKOUT_SUCCESS_URL env of None \<Rightarrow> [] | Some u \<Rightarrow> u),
      sr_cancel_url = (case co_CHECKOUT_CANCEL_URL env of None \<Rightarrow> [] | Some u \<Rightarrow> u),
      sr_client_reference_id = oid ord,
      sr_unit_amount = amount,
      sr_metadata_order_id = oid ord,
      sr_metadata_user_id = (case user_id ord of None \<Rightarrow> [] | Some u \<Rightarrow> u)\<rparr>"

text \<open>
  The handler, in three parts: from the card-intent tag to the response; the order lookup
  and the payability checks; method, configuration, payload and caller.
\<close>

definition checkout_session ::
  "checkout_ext \<Rightarrow> checkout_env \<Rightarrow> order \<Rightarrow> int \<Rightarrow> db \<Rightarrow> checkout_body http_response \<times> db" where
  "checkout_session ext env ord amount d =
     (let d1 = d\<lparr>db_orders := tag_card_intent (co_new_Date_tag ext) (oid ord) (co_f_tag ext)
                                (db_orders d)\<rparr>;
          body = checkout_form env ord amount
      in case co_fetch ext body of
           FetchThrows msg \<Rightarrow> (json 500 (CoError msg), d1)
         | FetchResponse ok session \<Rightarrow>
             if \<not> ok then (json 502 (CoStripeError session), d1)
             else
               (json 200 (CoSession (ss_url session) (ss_id session)),
                d1\<lparr>db_payments :=
                     insert_row
                       \<lparr>p_order_id = oid ord, provider = ''stripe'',
                        provider_payment_id = ss_id session,
                        amount_cents = amount, currency = ''ZAR'', p_status = ''pending'',
                        p_created_at = co_new_Date_payment ext,
                        p_updated_at = co_new_Date_payment ext\<rparr>
                       (co_f_insert ext) (db_payments d1)\<rparr>))"

definition checkout_order ::
  "checkout_ext \<Rightarrow> checkout_env \<Rightarrow> string \<Rightarrow> auth_result \<Rightarrow> db \<Rightarrow> checkout_body http_response \<times> db" where
  "checkout_order ext env order_id au d =
     (let res = select_maybeSingle (\<lambda>row. oid row = order_id) (co_f_select ext) (db_orders d)
      in case rerror res of
           Some e \<Rightarrow> (json 500 (CoErrorDetails ''order select failed'' e), d)
         | None \<Rightarrow>
             (case rdata res of
                None \<Rightarrow> (json 404 (CoOrderNotFound order_id), d)
              | Some ord \<Rightarrow>
                  if user_id ord \<noteq> auth_user_id au
                  then (json 403 (CoError ''Forbidden (not your order)''), d)
                  else if payment_status ord = Some ''paid''
                  then (json 409 (CoError ''order already paid''), d)
                  else if status ord \<in> set [''cancelled'', ''delivered'', ''failed'']
                  then (json 409 (CoError (''order not payable in status='' @ status ord)), d)
                  else
                    (let amount = (case total_cents ord of None \<Rightarrow> 0 | Some c \<Rightarrow> c)
                     in if amount < 100
                        then (json 400 (CoError ''amount too low (>= 100 cents)''), d)
                        else checkout_session ext env ord amount d)))"

definition create_checkout ::
  "checkout_ext \<Rightarrow> checkout_env \<Rightarrow> checkout_request \<Rightarrow> db \<Rightarrow> checkout_body http_response \<times> db" where
  "create_checkout ext env req d =
     (if req_method req = ''OPTIONS'' then (json 200 CoPreflight, d)
      else if req_method req \<noteq> ''POST'' then (json 405 (CoError ''Method not allowed''), d)
      else if falsy (co_STRIPE_SECRET_KEY env) then (json 500 (CoError ''Missing STRIPE_SECRET_KEY''), d)
      else if falsy (co_CHECKOUT_SUCCESS_URL env)
      then (json 500 (CoError ''Missing CHECKOUT_SUCCESS_URL''), d)
      else if falsy (co_CHECKOUT_CANCEL_URL env)
      then (json 500 (CoError ''Missing CHECKOUT_CANCEL_URL''), d)
      else if falsy (co_SUPABASE_URL env) \<or> falsy (co_SUPABASE_SERVICE_ROLE_KEY env)
              \<or> falsy (co_SUPABASE_ANON_KEY env)
      then (json 500 (CoError ''Missing SUPABASE_URL / SERVICE_ROLE_KEY / ANON_KEY''), d)
      else
        (case req_order_id req of
           None \<Rightarrow> (json 400 (CoError ''order_id missing''), d)
         | Some order_id \<Rightarrow>
             if order_id = [] then (json 400 (CoError ''order_id missing''), d)
             else
               (let authHeader = (case req_authorization req of None \<Rightarrow> [] | Some h \<Rightarrow> h);
                    au = co_getUser ext authHeader
                in if authErr au \<noteq> None \<or> falsy (auth_user_id au)
                   then (json 401 (CoError ''Unauthorized''), d)
                   else checkout_order ext env order_id au d)))"


section \<open>Example data\<close>

text \<open>
  A stand-in for the HMAC (two bytes: the lengths of key and message), a stand-in for
  \<open>Number\<close> that reads non-empty strings of decimal digits, one event, and small tables.
\<close>

definition example_sign :: "8 word list \<Rightarrow> 8 word list \<Rightarrow> 8 word list" where
  "example_sign key msg = [of_nat (length key), of_nat (length msg)]"

definition example_Number :: "jsstring \<Rightarrow> real option" where
  "example_Number s =
     (if s \<noteq> [] \<and> list_all (\<lambda>u. 48 \<le> unat u \<and> unat u \<le> 57) s
      then Some (real (foldl (\<lambda>n u. 10 * n + (unat u - 48)) 0 s))
      else None)"

text \<open>A stand-in for \<open>toUpperCase\<close> that maps the ASCII letters and nothing else.\<close>

definition example_toUpperCase :: "string \<Rightarrow> string" where
  "example_toUpperCase s =
     map (\<lambda>c. let n = (of_char c :: nat) in if 97 \<le> n \<and> n \<le> 122 then char_of (n - 32) else c) s"

definition example_session :: checkout_session where
  "example_session =
     \<lparr>cs_id = Some ''cs_1'', cs_metadata_order_id = Some ''o1'', cs_client_reference_id = None,
      cs_amount_total = Some 500, cs_currency = Some ''zar''\<rparr>"

definition example_JSON_parse :: "jsstring \<Rightarrow> string + event" where
  "example_JSON_parse s =
     (if s = js ''{}''
      then Inr \<lparr>ev_type = Some ''checkout.session.completed'', ev_object = Some example_session\<rparr>
      else Inl ''Unexpected token'')"

definition example_webhook_ext :: webhook_ext where
  "example_webhook_ext =
     \<lparr>wh_sign = example_sign, wh_Number = example_Number, wh_JSON_parse = example_JSON_parse,
      wh_toUpperCase = example_toUpperCase, wh_Date_now = 1000200, wh_new_Date = 1000200,
      wh_f_orders = None, wh_f_payments_update = None, wh_f_payments_insert = None\<rparr>"

definition example_webhook_env :: webhook_env where
  "example_webhook_env =
     \<lparr>wh_SUPABASE_URL = Some ''https://aqva.supabase.co'',
      wh_SUPABASE_SERVICE_ROLE_KEY = Some ''service'',
      wh_STRIPE_WEBHOOK_SECRET = Some (js ''whsec'')\<rparr>"

definition example_order :: "string \<Rightarrow> string \<Rightarrow> string option \<Rightarrow> string option \<Rightarrow> order" where
  "example_order k st ps rid =
     \<lparr>oid = k, user_id = Some ''u1'', status = st, payment_status = ps, payment_method = None,
      rider_id = rid, total_cents = Some 23997, eta_minutes = None, created_at = 1000,
      updated_at = None, delivered_at = None, cancelled_at = None\<rparr>"

definition example_db :: db where
  "example_db =
     \<lparr>db_orders = [example_order ''o1'' ''pending'' (Some ''unpaid'') None,
                   example_order ''o2'' ''assigned'' (Some ''paid'') (Some ''r2'')],
      db_payments = []\<rparr>"

definition example_rider_ui :: "string \<Rightarrow> rider_ui" where
  "example_rider_ui rid =
     \<lparr>riderId = Some rid, orders = [], loading = False, error = None, updatingId = None,
      alerts = [], console = []\<rparr>"

definition example_orders :: "order list" where
  "example_orders =
     [example_order ''o1'' ''pending'' (Some ''paid'') None,
      example_order ''o2'' ''assigned'' (Some ''paid'') (Some ''r2''),
      example_order ''o3'' ''pending'' (Some ''unpaid'') None,
      example_order ''o4'' ''en_route'' (Some ''paid'') (Some ''r3'')]"

text \<open>Orders created out of table order, for the rider's list.\<close>

definition example_claim_orders :: "order list" where
  "example_claim_orders =
     [(example_order ''o1'' ''pending'' (Some ''paid'') None)\<lparr>created_at := 3000\<rparr>,
      (example_order ''o2'' ''assigned'' (Some ''paid'') (Some ''r2''))\<lparr>created_at := 2000\<rparr>,
      example_order ''o3'' ''pending'' (Some ''unpaid'') None,
      example_order ''o4'' ''delivered'' (Some ''paid'') (Some ''r3''),
      example_order ''o5'' ''en_route'' (Some ''paid'') (Some ''r3'')]"

definition example_checkout_env :: checkout_env where
  "example_checkout_env =
     \<lparr>co_STRIPE_SECRET_KEY = Some ''sk_test'',
      co_CHECKOUT_SUCCESS_URL = Some ''https://aqva.app/payment/success'',
      co_CHECKOUT_CANCEL_URL = Some ''https://aqva.app/payment/cancel'',
      co_SUPABASE_URL = Some ''https://aqva.supabase.co'',
      co_SUPABASE_SERVICE_ROLE_KEY = Some ''service'',
      co_SUPABASE_ANON_KEY = Some ''anon''\<rparr>"

text \<open>The token \<open>Bearer u1\<close> is the session of user \<open>u1\<close>; any other header is refused.\<close>

definition example_getUser :: "string \<Rightarrow> auth_result" where
  "example_getUser h =
     (if h = ''Bearer u1'' then \<lparr>authErr = None, auth_user_id = Some ''u1''\<rparr>
      else \<lparr>authErr = Some ''invalid JWT'', auth_user_id = None\<rparr>)"

definition example_checkout_ext :: "(stripe_request \<Rightarrow> fetch_result) \<Rightarrow> checkout_ext" where
  "example_checkout_ext fetch =
     \<lparr>co_getUser = example_getUser, co_fetch = fetch,
      co_new_Date_tag = 3000, co_new_Date_payment = 3001,
      co_f_select = None, co_f_tag = None, co_f_insert = None\<rparr>"

definition example_app_ui :: app_ui where
  "example_app_ui = \<lparr>role = None, resolvingRole = False, app_error = None, app_console = []\<rparr>"

text \<open>
  A customer whose page still shows order \<open>o9\<close> as en route, as last fetched, while the
  store already holds it as delivered.
\<close>

definition example_stale_client_ui :: client_ui where
  "example_stale_client_ui =
     \<lparr>lastOrderId = Some ''o9'',
      orderStatus = Some (to_order_status (example_order ''o9'' ''en_route'' (Some ''paid'') (Some ''r2''))),
      loadingStatus = False, client_error = None, client_console = []\<rparr>"

definition example_delivered_orders :: "order list" where
  "example_delivered_orders =
     [(example_order ''o9'' ''delivered'' (Some ''paid'') (Some ''r2''))\<lparr>delivered_at := Some 40\<rparr>]"

text \<open>The row that the fallback of \<open>checkout_completed\<close> inserts.\<close>

definition paid_row :: "webhook_ext \<Rightarrow> string \<Rightarrow> string \<Rightarrow> checkout_session \<Rightarrow> payment" where
  "paid_row ext k sid s =
     \<lparr>p_order_id = k, provider = ''stripe'', provider_payment_id = Some sid,
      amount_cents = (case cs_amount_total s of None \<Rightarrow> 0 | Some a \<Rightarrow> a),
      currency = wh_toUpperCase ext (case cs_currency s of None \<Rightarrow> ''ZAR'' | Some c \<Rightarrow> c),
      p_status = ''paid'', p_created_at = wh_new_Date ext, p_updated_at = wh_new_Date ext\<rparr>"

section \<open>Tables keyed by the order id\<close>

lemma get_order_oid: "get_order k tbl = Some row \<Longrightarrow> oid row = k"
  by (induction tbl) (auto simp: get_order_def split: if_splits)

lemma no_row_with_key:
  assumes "distinct (map oid (a # tbl))" and "oid a = k"
  shows "\<forall>r\<in>set tbl. oid r \<noteq> k"
proof -
  from assms have "k \<notin> oid ` set tbl" by simp
  then show ?thesis by blast
qed

lemma filter_by_key:
  "distinct (map oid tbl) \<Longrightarrow>
   filter (\<lambda>r. oid r = k \<and> c r) tbl =
     (case get_order k tbl of None \<Rightarrow> [] | Some row \<Rightarrow> if c row then [row] else [])"
proof (induction tbl)
  case Nil
  then show ?case by (simp add: get_order_def)
next
  case (Cons a tbl)
  show ?case
  proof (cases "oid a = k")
    case True
    with Cons.prems have "\<forall>r\<in>set tbl. oid r \<noteq> k" by (rule no_row_with_key)
    then have "filter (\<lambda>r. oid r = k \<and> c r) tbl = []" by (simp add: filter_empty_conv)
    with True show ?thesis by (simp add: get_order_def)
  next
    case False
    with Cons show ?thesis by (simp add: get_order_def)
  qed
qed

lemma get_order_unique:
  "distinct (map oid tbl) \<Longrightarrow> get_order k tbl = Some row \<Longrightarrow> r \<in> set tbl \<Longrightarrow> oid r = k
   \<Longrightarrow> r = row"
proof (induction tbl)
  case Nil
  then show ?case by simp
next
  case (Cons a tbl)
  show ?case
  proof (cases "oid a = k")
    case True
    with Cons.prems(1) have "\<forall>r\<in>set tbl. oid r \<noteq> k" by (rule no_row_with_key)
    with True Cons.prems show ?thesis by (auto simp: get_order_def)
  next
    case False
    with Cons show ?thesis by (auto simp: get_order_def)
  qed
qed

lemma map_patch_keyed:
  assumes "distinct (map oid tbl)" "get_order k tbl = Some row" "c row"
  shows "map (\<lambda>r. if oid r = k \<and> c r then f r else r) tbl
         = map (\<lambda>r. if oid r = k then f r else r) tbl"
proof (rule map_cong [OF refl])
  fix r assume "r \<in> set tbl"
  with assms show "(if oid r = k \<and> c r then f r else r) = (if oid r = k then f r else r)"
    using get_order_unique [OF assms(1,2)] by auto
qed

lemma get_order_patched:
  "get_order k tbl = Some row \<Longrightarrow> c row \<Longrightarrow> oid (f row) = k \<Longrightarrow>
   get_order k (map (\<lambda>r. if oid r = k \<and> c r then f r else r) tbl) = Some (f row)"
  by (induction tbl) (auto simp: get_order_def split: if_splits)

lemma filter_map_patch:
  "(\<And>r. P (f r) = P r) \<Longrightarrow>
   filter P (map (\<lambda>r. if P r then f r else r) tbl) = map f (filter P tbl)"
  by (induction tbl) auto

lemma map_patch_none:
  "filter P tbl = [] \<Longrightarrow> map (\<lambda>r. if P r then f r else r) tbl = tbl"
  by (induction tbl) (auto split: if_splits)

lemma filter_patched:
  "(\<And>r. P r \<Longrightarrow> Q r \<and> Q (f r)) \<Longrightarrow>
   filter (\<lambda>r. \<not> Q r) (map (\<lambda>r. if P r then f r else r) tbl) = filter (\<lambda>r. \<not> Q r) tbl"
  by (induction tbl) auto

section \<open>The claim protocol\<close>

lemma alerts_loadOrders: "alerts (loadOrders f_load ui tbl) = alerts ui"
  by (simp add: loadOrders_def Let_def select_where_def split: option.splits)

lemma claim_update_applies:
  assumes "distinct (map oid tbl)" and "get_order orderId tbl = Some row" and "claimable row"
  shows "claim_update rid now orderId None tbl
         = (map (\<lambda>r. if oid r = orderId then claim_patch rid now r else r) tbl,
            \<lparr>rdata = Some (claim_patch rid now row), rerror = None\<rparr>)"
proof -
  have m: "map (\<lambda>r. if oid r = orderId \<and> claimable r then claim_patch rid now r else r) tbl
           = map (\<lambda>r. if oid r = orderId then claim_patch rid now r else r) tbl"
    using assms by (rule map_patch_keyed)
  have f: "filter (\<lambda>r. oid r = orderId \<and> claimable r) tbl = [row]"
    using filter_by_key [OF assms(1), of orderId claimable] assms(2,3) by simp
  show ?thesis
    using f m by (simp add: claim_update_def update_maybeSingle_def)
qed

lemma claim_update_rejected:
  assumes "distinct (map oid tbl)"
    and "\<not> (case get_order orderId tbl of None \<Rightarrow> False | Some row \<Rightarrow> claimable row)"
  shows "claim_update rid now orderId None tbl = (tbl, \<lparr>rdata = None, rerror = None\<rparr>)"
proof -
  have "filter (\<lambda>r. oid r = orderId \<and> claimable r) tbl = []"
    using filter_by_key [OF assms(1), of orderId claimable] assms(2)
    by (cases "get_order orderId tbl") simp_all
  then show ?thesis by (simp add: claim_update_def update_maybeSingle_def)
qed

lemma acceptOrder_after_check:
  assumes "riderId ui = Some rid" and "rid \<noteq> []"
    and "\<not> hasActiveOrderForRider f_chk (Some rid) tbl"
    and "claim_update rid now orderId None tbl = (tbl', res)" and "rerror res = None"
  shows "acceptOrder f_chk None f_load now orderId ui tbl
         = (loadOrders f_load
              (if rdata res = None
               then ui\<lparr>error := None, updatingId := None,
                       alerts := alerts ui @
                         [''This order is no longer available (taken or not paid).'']\<rparr>
               else ui\<lparr>error := None, updatingId := None\<rparr>)
              tbl',
            tbl')"
  using assms by (cases "rdata res") (simp_all add: acceptOrder_def)

lemma then_branch: "(if c then A else B) \<Longrightarrow> c \<Longrightarrow> A"
  by simp

lemma else_branch: "(if c then A else B) \<Longrightarrow> \<not> c \<Longrightarrow> B"
  by simp

lemma orders_loadOrders:
  "orders (loadOrders None ui tbl)
   = map normalize
       (sort_key created_at
          (filter (\<lambda>row. status row \<in> set [''pending'', ''assigned'', ''en_route'']
                         \<and> payment_status row = Some ''paid'') tbl))"
  by (simp add: loadOrders_def select_where_def)

text \<open>
  C1. A claim attempt is the conditional update that \<open>acceptOrder\<close> issues once its
  pre-check has passed, answered by the store. On a table keyed by the order id it
  applies exactly when the order's persisted state is pending, paid and without a rider:
  then the order, and no other, becomes assigned to the calling rider. Otherwise the
  table is unchanged, the update reports no row (\<open>data: null\<close>, no error), and the caller
  alerts that the order is no longer available and reloads its list: when the reload is
  answered, the list it shows is the paid orders of the table in status pending,
  assigned or en route, oldest first.
\<close>

theorem acceptOrder_claim:
  assumes "distinct (map oid tbl)"
    and "riderId ui = Some rid" and "rid \<noteq> []"
    and "\<not> hasActiveOrderForRider f_chk (Some rid) tbl"
  shows
    "(if (case get_order orderId tbl of None \<Rightarrow> False | Some row \<Rightarrow> claimable row)
      then snd (acceptOrder f_chk None f_load now orderId ui tbl)
             = map (\<lambda>r. if oid r = orderId then claim_patch rid now r else r) tbl
           \<and> get_order orderId (snd (acceptOrder f_chk None f_load now orderId ui tbl))
               = map_option (claim_patch rid now) (get_order orderId tbl)
           \<and> rdata (snd (claim_update rid now orderId None tbl))
               = map_option (claim_patch rid now) (get_order orderId tbl)
           \<and> alerts (fst (acceptOrder f_chk None f_load now orderId ui tbl)) = alerts ui
           \<and> snd (acceptOrder f_chk None f_load now orderId ui tbl) \<noteq> tbl
      else snd (acceptOrder f_chk None f_load now orderId ui tbl) = tbl
           \<and> claim_update rid now orderId None tbl = (tbl, \<lparr>rdata = None, rerror = None\<rparr>)
           \<and> fst (acceptOrder f_chk None f_load now orderId ui tbl)
               = loadOrders f_load
                   (ui\<lparr>error := None, updatingId := None,
                       alerts := alerts ui @
                         [''This order is no longer available (taken or not paid).'']\<rparr>)
                   tbl
           \<and> alerts (fst (acceptOrder f_chk None f_load now orderId ui tbl))
               = alerts ui @ [''This order is no longer available (taken or not paid).'']
           \<and> orders (fst (acceptOrder f_chk None None now orderId ui tbl))
               = map normalize
                   (sort_key created_at
                      (filter (\<lambda>row. status row \<in> set [''pending'', ''assigned'', ''en_route'']
                                     \<and> payment_status row = Some ''paid'') tbl)))"
proof (cases "case get_order orderId tbl of None \<Rightarrow> False | Some row \<Rightarrow> claimable row")
  case True
  then obtain row where row: "get_order orderId tbl = Some row" "claimable row"
    by (auto split: option.splits)
  let ?tbl' = "map (\<lambda>r. if oid r = orderId then claim_patch rid now r else r) tbl"
  have k: "oid row = orderId" using row(1) by (rule get_order_oid)
  have u: "claim_update rid now orderId None tbl
           = (?tbl', \<lparr>rdata = Some (claim_patch rid now row), rerror = None\<rparr>)"
    using assms(1) row by (rule claim_update_applies)
  have a: "acceptOrder f_chk None f_load now orderId ui tbl
           = (loadOrders f_load (ui\<lparr>error := None, updatingId := None\<rparr>) ?tbl', ?tbl')"
    using acceptOrder_after_check [OF assms(2-4) u] by simp
  have "get_order orderId
          (map (\<lambda>r. if oid r = orderId \<and> claimable r then claim_patch rid now r else r) tbl)
        = Some (claim_patch rid now row)"
    using row k by (intro get_order_patched) (simp_all add: claim_patch_def)
  then have g: "get_order orderId ?tbl' = Some (claim_patch rid now row)"
    using map_patch_keyed [OF assms(1) row(1), of claimable "claim_patch rid now"] row(2) by simp
  have "status (claim_patch rid now row) \<noteq> status row"
    using row(2) by (simp add: claim_patch_def claimable_def)
  then have "claim_patch rid now row \<noteq> row" by auto
  with g row(1) have ne: "?tbl' \<noteq> tbl" by auto
  show ?thesis
    using True row(1) a u g ne by (simp add: alerts_loadOrders)
next
  case False
  have u: "claim_update rid now orderId None tbl = (tbl, \<lparr>rdata = None, rerror = None\<rparr>)"
    using assms(1) False by (rule claim_update_rejected)
  have a: "acceptOrder f_chk None fl now orderId ui tbl
           = (loadOrders fl
                (ui\<lparr>error := None, updatingId := None,
                    alerts := alerts ui @
                      [''This order is no longer available (taken or not paid).'']\<rparr>)
                tbl, tbl)" for fl
    using acceptOrder_after_check [OF assms(2-4) u, of fl] by simp
  show ?thesis
    using False u unfolding a by (simp add: alerts_loadOrders orders_loadOrders)
qed

theorem acceptOrder_claim_witness:
  "distinct (map oid example_claim_orders)
   \<and> \<not> hasActiveOrderForRider None (Some ''r1'') example_claim_orders
   \<and> snd (acceptOrder None None None 7 ''o1'' (example_rider_ui ''r1'') example_claim_orders)
       = [(example_order ''o1'' ''assigned'' (Some ''paid'') (Some ''r1''))
            \<lparr>created_at := 3000, updated_at := Some 7\<rparr>,
          (example_order ''o2'' ''assigned'' (Some ''paid'') (Some ''r2''))\<lparr>created_at := 2000\<rparr>,
          example_order ''o3'' ''pending'' (Some ''unpaid'') None,
          example_order ''o4'' ''delivered'' (Some ''paid'') (Some ''r3''),
          example_order ''o5'' ''en_route'' (Some ''paid'') (Some ''r3'')]
   \<and> snd (acceptOrder None None None 7 ''o2'' (example_rider_ui ''r1'') example_claim_orders)
       = example_claim_orders
   \<and> alerts (fst (acceptOrder None None None 7 ''o2'' (example_rider_ui ''r1'') example_claim_orders))
       = [''This order is no longer available (taken or not paid).'']
   \<and> orders (fst (acceptOrder None None None 7 ''o2'' (example_rider_ui ''r1'') example_claim_orders))
       = [\<lparr>v_id = ''o5'', v_status = ''en_route'', v_payment_status = Some ''paid'',
           v_total_cents = Some 23997, v_created_at = 1000, v_rider_id = Some ''r3''\<rparr>,
          \<lparr>v_id = ''o2'', v_status = ''assigned'', v_payment_status = Some ''paid'',
           v_total_cents = Some 23997, v_created_at = 2000, v_rider_id = Some ''r2''\<rparr>,
          \<lparr>v_id = ''o1'', v_status = ''pending'', v_payment_status = Some ''paid'',
           v_total_cents = Some 23997, v_created_at = 3000, v_rider_id = None\<rparr>]
   \<and> snd (acceptOrder None None None 7 ''o3'' (example_rider_ui ''r1'') example_claim_orders)
       = example_claim_orders"
proof -
  have d: "distinct (map oid example_claim_orders)"
    by (simp add: example_claim_orders_def example_order_def)
  have r: "riderId (example_rider_ui ''r1'') = Some ''r1''" "''r1'' \<noteq> []"
    by (simp_all add: example_rider_ui_def)
  have h: "\<not> hasActiveOrderForRider None (Some ''r1'') example_claim_orders"
    by (simp add: hasActiveOrderForRider_def select_where_def example_claim_orders_def
          example_order_def)
  note th = acceptOrder_claim [OF d r h, of _ None 7]
  have g1: "get_order ''o1'' example_claim_orders
            = Some ((example_order ''o1'' ''pending'' (Some ''paid'') None)\<lparr>created_at := 3000\<rparr>)"
    and g2: "get_order ''o2'' example_claim_orders
             = Some ((example_order ''o2'' ''assigned'' (Some ''paid'') (Some ''r2''))
                       \<lparr>created_at := 2000\<rparr>)"
    and g3: "get_order ''o3'' example_claim_orders
             = Some (example_order ''o3'' ''pending'' (Some ''unpaid'') None)"
    by (simp_all add: get_order_def example_claim_orders_def example_order_def)
  have c1: "claimable ((example_order ''o1'' ''pending'' (Some ''paid'') None)\<lparr>created_at := 3000\<rparr>)"
    and c2: "\<not> claimable ((example_order ''o2'' ''assigned'' (Some ''paid'') (Some ''r2''))
                              \<lparr>created_at := 2000\<rparr>)"
    and c3: "\<not> claimable (example_order ''o3'' ''pending'' (Some ''unpaid'') None)"
    by (simp_all add: claimable_def example_order_def)
  have a1: "snd (acceptOrder None None None 7 ''o1'' (example_rider_ui ''r1'') example_claim_orders)
            = map (\<lambda>r. if oid r = ''o1'' then claim_patch ''r1'' 7 r else r) example_claim_orders"
    using th [of "''o1''", THEN then_branch] g1 c1 by simp
  have e2: "\<not> (case get_order ''o2'' example_claim_orders of None \<Rightarrow> False
                | Some row \<Rightarrow> claimable row)"
    using g2 c2 by simp
  have e3: "\<not> (case get_order ''o3'' example_claim_orders of None \<Rightarrow> False
                | Some row \<Rightarrow> claimable row)"
    using g3 c3 by simp
  have a2: "snd (acceptOrder None None None 7 ''o2'' (example_rider_ui ''r1'') example_claim_orders)
            = example_claim_orders
          \<and> alerts (fst (acceptOrder None None None 7 ''o2'' (example_rider_ui ''r1'')
                            example_claim_orders))
            = alerts (example_rider_ui ''r1'')
              @ [''This order is no longer available (taken or not paid).'']
          \<and> orders (fst (acceptOrder None None None 7 ''o2'' (example_rider_ui ''r1'')
                            example_claim_orders))
            = map normalize
                (sort_key created_at
                   (filter (\<lambda>row. status row \<in> set [''pending'', ''assigned'', ''en_route'']
                                  \<and> payment_status row = Some ''paid'') example_claim_orders))"
    using th [of "''o2''", THEN else_branch, OF e2] by blast
  have a3: "snd (acceptOrder None None None 7 ''o3'' (example_rider_ui ''r1'') example_claim_orders)
            = example_claim_orders"
    using th [of "''o3''", THEN else_branch, OF e3] by blast
  have m: "map (\<lambda>r. if oid r = ''o1'' then claim_patch ''r1'' 7 r else r) example_claim_orders
           = [(example_order ''o1'' ''assigned'' (Some ''paid'') (Some ''r1''))
                \<lparr>created_at := 3000, updated_at := Some 7\<rparr>,
              (example_order ''o2'' ''assigned'' (Some ''paid'') (Some ''r2''))\<lparr>created_at := 2000\<rparr>,
              example_order ''o3'' ''pending'' (Some ''unpaid'') None,
              example_order ''o4'' ''delivered'' (Some ''paid'') (Some ''r3''),
              example_order ''o5'' ''en_route'' (Some ''paid'') (Some ''r3'')]"
    by (simp add: example_claim_orders_def example_order_def claim_patch_def)
  have v: "map normalize
             (sort_key created_at
                (filter (\<lambda>row. status row \<in> set [''pending'', ''assigned'', ''en_route'']
                               \<and> payment_status row = Some ''paid'') example_claim_orders))
           = [\<lparr>v_id = ''o5'', v_status = ''en_route'', v_payment_status = Some ''paid'',
               v_total_cents = Some 23997, v_created_at = 1000, v_rider_id = Some ''r3''\<rparr>,
              \<lparr>v_id = ''o2'', v_status = ''assigned'', v_payment_status = Some ''paid'',
               v_total_cents = Some 23997, v_created_at = 2000, v_rider_id = Some ''r2''\<rparr>,
              \<lparr>v_id = ''o1'', v_status = ''pending'', v_payment_status = Some ''paid'',
               v_total_cents = Some 23997, v_created_at = 3000, v_rider_id = None\<rparr>]"
    by (simp add: example_claim_orders_def example_order_def normalize_def)
  show ?thesis
    using d h a1 a2 a3 unfolding m v by (simp add: example_rider_ui_def)
qed

section \<open>Delivery progression\<close>

lemma rider_transition_tbl:
  "snd (rider_transition P f None f_load k ui tbl) = map (\<lambda>r. if P r then f r else r) tbl"
  by (simp add: rider_transition_def update_where_def)

lemma rider_transition_fault:
  "snd (rider_transition P f (Some e) f_load k ui tbl) = tbl"
  by (simp add: rider_transition_def update_where_def)

lemma rider_transition_cases:
  "snd (rider_transition P f f_upd f_load k ui tbl) = tbl
   \<or> snd (rider_transition P f f_upd f_load k ui tbl) = map (\<lambda>r. if P r then f r else r) tbl"
  by (cases f_upd) (simp_all add: rider_transition_tbl rider_transition_fault)

lemma rider_transition_others:
  assumes "\<And>r. P r \<Longrightarrow> Q r \<and> Q (f r)"
  shows "filter (\<lambda>r. \<not> Q r) (snd (rider_transition P f f_upd f_load k ui tbl))
         = filter (\<lambda>r. \<not> Q r) tbl"
  using rider_transition_cases [of P f f_upd f_load k ui tbl] filter_patched [of P Q f tbl, OF assms]
  by auto

text \<open>
  C6. For a rider \<open>rid\<close>, each transition patches exactly the rows that carry the given
  order id, have \<open>rider_id = rid\<close> and are in the required prior status, and leaves every
  other row as it is: \<open>startDelivery\<close> takes \<open>assigned\<close> to \<open>en_route\<close> with
  \<open>eta_minutes = 10\<close>, \<open>markDelivered\<close> takes \<open>en_route\<close> to \<open>delivered\<close> with
  \<open>delivered_at\<close>, \<open>markUndeliverable\<close> takes \<open>assigned\<close> or \<open>en_route\<close> to \<open>failed\<close> with
  \<open>cancelled_at\<close>. Whatever the store answers and whatever the dialog answers, the rows
  whose \<open>rider_id\<close> is not the caller are the same before and after.
\<close>

theorem rider_transitions_guarded:
  assumes "riderId ui = Some rid" and "rid \<noteq> []"
  shows
    "snd (startDelivery None f_load now k ui tbl)
       = map (\<lambda>r. if oid r = k \<and> rider_id r = Some rid \<and> status r = ''assigned''
                   then r\<lparr>status := ''en_route'', eta_minutes := Some 10, updated_at := Some now\<rparr>
                   else r) tbl
     \<and> snd (markDelivered None f_load now k ui tbl)
       = map (\<lambda>r. if oid r = k \<and> rider_id r = Some rid \<and> status r = ''en_route''
                   then r\<lparr>status := ''delivered'', delivered_at := Some now, updated_at := Some now\<rparr>
                   else r) tbl
     \<and> snd (markUndeliverable True None f_load now k ui tbl)
       = map (\<lambda>r. if oid r = k \<and> rider_id r = Some rid
                      \<and> (status r = ''assigned'' \<or> status r = ''en_route'')
                   then r\<lparr>status := ''failed'', cancelled_at := Some now, updated_at := Some now\<rparr>
                   else r) tbl
     \<and> filter (\<lambda>r. rider_id r \<noteq> Some rid) (snd (startDelivery f_upd f_load now k ui tbl))
       = filter (\<lambda>r. rider_id r \<noteq> Some rid) tbl
     \<and> filter (\<lambda>r. rider_id r \<noteq> Some rid) (snd (markDelivered f_upd f_load now k ui tbl))
       = filter (\<lambda>r. rider_id r \<noteq> Some rid) tbl
     \<and> filter (\<lambda>r. rider_id r \<noteq> Some rid) (snd (markUndeliverable c f_upd f_load now k ui tbl))
       = filter (\<lambda>r. rider_id r \<noteq> Some rid) tbl"
proof (intro conjI)
  show "snd (startDelivery None f_load now k ui tbl)
       = map (\<lambda>r. if oid r = k \<and> rider_id r = Some rid \<and> status r = ''assigned''
                   then r\<lparr>status := ''en_route'', eta_minutes := Some 10, updated_at := Some now\<rparr>
                   else r) tbl"
    using assms by (simp add: startDelivery_def rider_transition_tbl)
  show "snd (markDelivered None f_load now k ui tbl)
       = map (\<lambda>r. if oid r = k \<and> rider_id r = Some rid \<and> status r = ''en_route''
                   then r\<lparr>status := ''delivered'', delivered_at := Some now, updated_at := Some now\<rparr>
                   else r) tbl"
    using assms by (simp add: markDelivered_def rider_transition_tbl)
  show "snd (markUndeliverable True None f_load now k ui tbl)
       = map (\<lambda>r. if oid r = k \<and> rider_id r = Some rid
                      \<and> (status r = ''assigned'' \<or> status r = ''en_route'')
                   then r\<lparr>status := ''failed'', cancelled_at := Some now, updated_at := Some now\<rparr>
                   else r) tbl"
    using assms by (simp add: markUndeliverable_def rider_transition_tbl)
  show "filter (\<lambda>r. rider_id r \<noteq> Some rid) (snd (startDelivery f_upd f_load now k ui tbl))
       = filter (\<lambda>r. rider_id r \<noteq> Some rid) tbl"
    using assms
    by (simp add: startDelivery_def,
        intro impI rider_transition_others [where Q = "\<lambda>r. rider_id r = Some rid"], simp)
  show "filter (\<lambda>r. rider_id r \<noteq> Some rid) (snd (markDelivered f_upd f_load now k ui tbl))
       = filter (\<lambda>r. rider_id r \<noteq> Some rid) tbl"
    using assms
    by (simp add: markDelivered_def,
        intro impI rider_transition_others [where Q = "\<lambda>r. rider_id r = Some rid"], simp)
  show "filter (\<lambda>r. rider_id r \<noteq> Some rid) (snd (markUndeliverable c f_upd f_load now k ui tbl))
       = filter (\<lambda>r. rider_id r \<noteq> Some rid) tbl"
    using assms
    by (simp add: markUndeliverable_def,
        intro impI rider_transition_others [where Q = "\<lambda>r. rider_id r = Some rid"], simp)
qed

theorem rider_transitions_guarded_witness:
  "snd (startDelivery None None 9 ''o2'' (example_rider_ui ''r2'') example_orders)
     = [example_order ''o1'' ''pending'' (Some ''paid'') None,
        (example_order ''o2'' ''en_route'' (Some ''paid'') (Some ''r2''))
          \<lparr>eta_minutes := Some 10, updated_at := Some 9\<rparr>,
        example_order ''o3'' ''pending'' (Some ''unpaid'') None,
        example_order ''o4'' ''en_route'' (Some ''paid'') (Some ''r3'')]
   \<and> snd (startDelivery None None 9 ''o2'' (example_rider_ui ''r3'') example_orders) = example_orders
   \<and> snd (markDelivered None None 9 ''o2'' (example_rider_ui ''r2'') example_orders) = example_orders
   \<and> snd (markDelivered None None 9 ''o4'' (example_rider_ui ''r3'') example_orders)
     = [example_order ''o1'' ''pending'' (Some ''paid'') None,
        example_order ''o2'' ''assigned'' (Some ''paid'') (Some ''r2''),
        example_order ''o3'' ''pending'' (Some ''unpaid'') None,
        (example_order ''o4'' ''delivered'' (Some ''paid'') (Some ''r3''))
          \<lparr>delivered_at := Some 9, updated_at := Some 9\<rparr>]
   \<and> snd (markUndeliverable True None None 9 ''o4'' (example_rider_ui ''r2'') example_orders)
     = example_orders
   \<and> snd (markUndeliverable True None None 9 ''o2'' (example_rider_ui ''r2'') example_orders)
     = [example_order ''o1'' ''pending'' (Some ''paid'') None,
        (example_order ''o2'' ''failed'' (Some ''paid'') (Some ''r2''))
          \<lparr>cancelled_at := Some 9, updated_at := Some 9\<rparr>,
        example_order ''o3'' ''pending'' (Some ''unpaid'') None,
        example_order ''o4'' ''en_route'' (Some ''paid'') (Some ''r3'')]"
proof -
  have r2: "riderId (example_rider_ui ''r2'') = Some ''r2''" "''r2'' \<noteq> []"
    and r3: "riderId (example_rider_ui ''r3'') = Some ''r3''" "''r3'' \<noteq> []"
    by (simp_all add: example_rider_ui_def)
  show ?thesis
    using rider_transitions_guarded [OF r2, of None 9 "''o2''" example_orders None True]
      rider_transitions_guarded [OF r3, of None 9 "''o2''" example_orders None True]
      rider_transitions_guarded [OF r3, of None 9 "''o4''" example_orders None True]
      rider_transitions_guarded [OF r2, of None 9 "''o4''" example_orders None True]
    by (simp add: example_orders_def example_order_def)
qed


section \<open>The webhook's signature check\<close>

lemma tse_fold:
  "fold (\<lambda>i out. out OR ucast (a ! i XOR b ! i)) [0..<n] (acc :: 32 word) = 0
   \<longleftrightarrow> acc = 0 \<and> (\<forall>i<n. (a ! i :: 8 word) = b ! i)"
proof (induction n)
  case 0
  then show ?case by simp
next
  case (Suc n)
  have z: "(ucast (x :: 8 word) :: 32 word) = 0 \<longleftrightarrow> x = 0" for x
  proof -
    have "uint (ucast x :: 32 word) = uint x" by (rule uint_up_ucast) (simp add: is_up)
    then show ?thesis by (metis uint_0_iff)
  qed
  have x: "(x XOR y) = 0 \<longleftrightarrow> x = y" for x y :: "8 word"
    by (metis xor.right_neutral xor_self_eq xor.left_commute xor.commute)
  show ?case
    using Suc by (auto simp: or_eq_0_iff z x less_Suc_eq)
qed

lemma timingSafeEqualBytes_iff: "timingSafeEqualBytes a b \<longleftrightarrow> a = b"
  by (auto simp: timingSafeEqualBytes_def tse_fold intro: nth_equalityI)

lemma utf8_ascii: "cp < 128 \<Longrightarrow> utf8 cp = [of_nat cp]"
  by (simp add: utf8_def)

lemma unat_byte: "n < 256 \<Longrightarrow> unat (of_nat n :: 8 word) = n"
  by (simp add: unat_of_nat)

lemma utf8_head:
  assumes "128 \<le> cp" and "cp < 0x110000"
  shows "\<exists>b bs. utf8 cp = b # bs \<and> 128 \<le> unat b"
proof -
  consider "cp < 0x800" | "0x800 \<le> cp" "cp < 0x10000" | "0x10000 \<le> cp" by linarith
  then show ?thesis
  proof cases
    case 1
    then have "0xC0 + cp div 64 < 256" by simp
    then have "unat (of_nat (0xC0 + cp div 64) :: 8 word) = 0xC0 + cp div 64" by (rule unat_byte)
    then have "128 \<le> unat (of_nat (0xC0 + cp div 64) :: 8 word)" by simp
    moreover have "utf8 cp = [of_nat (0xC0 + cp div 64), of_nat (0x80 + cp mod 64)]"
      using assms(1) 1 unfolding utf8_def by simp
    ultimately show ?thesis by blast
  next
    case 2
    then have "0xE0 + cp div 4096 < 256" by simp
    then have "unat (of_nat (0xE0 + cp div 4096) :: 8 word) = 0xE0 + cp div 4096" by (rule unat_byte)
    then have "128 \<le> unat (of_nat (0xE0 + cp div 4096) :: 8 word)" by simp
    moreover have "utf8 cp = [of_nat (0xE0 + cp div 4096), of_nat (0x80 + cp div 64 mod 64),
                              of_nat (0x80 + cp mod 64)]"
      using 2 unfolding utf8_def by simp
    ultimately show ?thesis by blast
  next
    case 3
    with assms(2) have "0xF0 + cp div 262144 < 256" by simp
    then have "unat (of_nat (0xF0 + cp div 262144) :: 8 word) = 0xF0 + cp div 262144"
      by (rule unat_byte)
    then have "128 \<le> unat (of_nat (0xF0 + cp div 262144) :: 8 word)" by simp
    moreover have "utf8 cp = [of_nat (0xF0 + cp div 262144), of_nat (0x80 + cp div 4096 mod 64),
                              of_nat (0x80 + cp div 64 mod 64), of_nat (0x80 + cp mod 64)]"
      using 3 unfolding utf8_def by simp
    ultimately show ?thesis by blast
  qed
qed

lemma scalar_bounds: "scalar u < 0x110000" "unat u < 128 \<Longrightarrow> scalar u = unat u"
  "\<not> unat u < 128 \<Longrightarrow> 128 \<le> scalar u"
proof -
  have "unat u < 2 ^ 16" using unsigned_less [of u] by simp
  then show "scalar u < 0x110000" by (simp add: scalar_def)
  show "unat u < 128 \<Longrightarrow> scalar u = unat u"
    by (simp add: scalar_def high_surrogate_def low_surrogate_def)
  show "\<not> unat u < 128 \<Longrightarrow> 128 \<le> scalar u" by (simp add: scalar_def)
qed

lemma pair_bounds:
  assumes "high_surrogate u" "low_surrogate v"
  shows "128 \<le> 0x10000 + (unat u - 0xD800) * 0x400 + (unat v - 0xDC00)"
    and "0x10000 + (unat u - 0xD800) * 0x400 + (unat v - 0xDC00) < 0x110000"
proof -
  show "128 \<le> 0x10000 + (unat u - 0xD800) * 0x400 + (unat v - 0xDC00)" by simp
  have "unat u - 0xD800 \<le> 1023" using assms(1) unfolding high_surrogate_def by linarith
  then have "(unat u - 0xD800) * 0x400 \<le> 1023 * 0x400" by (rule mult_le_mono1)
  moreover have "unat v - 0xDC00 \<le> 1023" using assms(2) unfolding low_surrogate_def by linarith
  ultimately show "0x10000 + (unat u - 0xD800) * 0x400 + (unat v - 0xDC00) < 0x110000" by linarith
qed

lemma encode_ascii_Cons: "unat x < 128 \<Longrightarrow> encode (x # xs) = of_nat (unat x) # encode xs"
  by (cases xs) (simp_all add: scalar_bounds utf8_ascii high_surrogate_def)

lemma encode_other_Cons:
  assumes "\<not> unat y < 128"
  shows "\<exists>c cs. encode (y # ys) = c # cs \<and> 128 \<le> unat c"
proof (cases ys)
  case Nil
  then show ?thesis
    using utf8_head [OF scalar_bounds(3) [OF assms] scalar_bounds(1)] by simp
next
  case (Cons v vs)
  show ?thesis
  proof (cases "high_surrogate y \<and> low_surrogate v")
    case True
    then obtain b bs where "utf8 (0x10000 + (unat y - 0xD800) * 0x400 + (unat v - 0xDC00)) = b # bs"
      "128 \<le> unat b"
      using utf8_head [OF pair_bounds [of y v]] by blast
    with True Cons show ?thesis by simp
  next
    case False
    obtain b bs where "utf8 (scalar y) = b # bs" "128 \<le> unat b"
      using utf8_head [OF scalar_bounds(3) [OF assms] scalar_bounds(1)] by blast
    with False Cons show ?thesis by auto
  qed
qed

lemma encode_ascii_eq:
  "list_all (\<lambda>u. unat u < 128) a \<Longrightarrow> encode a = encode b \<Longrightarrow> a = b"
proof (induction a arbitrary: b)
  case Nil
  show ?case
  proof (cases b)
    case Nil
    then show ?thesis by simp
  next
    case (Cons y ys)
    have "encode (y # ys) \<noteq> []"
      using encode_ascii_Cons [of y ys] encode_other_Cons [of y ys] by (cases "unat y < 128") auto
    with Nil.prems Cons show ?thesis by simp
  qed
next
  case (Cons x xs)
  then have x: "unat x < 128" and xs: "list_all (\<lambda>u. unat u < 128) xs" by simp_all
  have ex: "encode (x # xs) = of_nat (unat x) # encode xs" using x by (rule encode_ascii_Cons)
  have bx: "unat (of_nat (unat x) :: 8 word) = unat x" using x by (intro unat_byte) simp
  show ?case
  proof (cases b)
    case Nil
    with Cons.prems(2) ex show ?thesis by simp
  next
    case b: (Cons y ys)
    show ?thesis
    proof (cases "unat y < 128")
      case True
      have ey: "encode (y # ys) = of_nat (unat y) # encode ys" using True by (rule encode_ascii_Cons)
      have by': "unat (of_nat (unat y) :: 8 word) = unat y" using True by (intro unat_byte) simp
      from Cons.prems(2) b ex ey
      have h: "(of_nat (unat x) :: 8 word) = of_nat (unat y)" and t: "encode xs = encode ys" by simp_all
      from h bx by' have "unat x = unat y" by simp
      then have "x = y" by (simp add: word_unat_eq_iff)
      moreover have "xs = ys" using xs t by (rule Cons.IH)
      ultimately show ?thesis using b by simp
    next
      case False
      then obtain c cs where "encode (y # ys) = c # cs" "128 \<le> unat c"
        using encode_other_Cons by blast
      with Cons.prems(2) b ex bx x show ?thesis by auto
    qed
  qed
qed


declare encode.simps [simp del]

lemma encode_ascii: "list_all (\<lambda>u. unat u < 128) s \<Longrightarrow> encode s = map (\<lambda>u. of_nat (unat u)) s"
  by (induction s) (simp_all add: encode_ascii_Cons encode.simps(1))

lemma hex_digit_ascii:
  assumes "n < 16"
  shows "unat (hex_digit n) < 128"
proof -
  have "list_all (\<lambda>u. unat u < 128) (js ''0123456789abcdef'')"
    by (simp add: js_def)
  moreover have "length (js ''0123456789abcdef'') = 16" by (simp add: js_def)
  ultimately show ?thesis
    using assms unfolding hex_digit_def by (simp add: list_all_length)
qed

lemma hex2_ascii: "list_all (\<lambda>u. unat u < 128) (hex2 b)"
proof -
  have "unat b < 2 ^ 8" using unsigned_less [of b] by simp
  then have "unat b div 16 < 16" by simp
  moreover have "unat b mod 16 < 16" by simp
  ultimately show ?thesis by (simp add: hex2_def hex_digit_ascii)
qed

lemma hmacSha256Hex_ascii: "list_all (\<lambda>u. unat u < 128) (hmacSha256Hex sign secret message)"
proof -
  have "list_all (\<lambda>u. unat u < 128) (concat (map hex2 bs))" for bs
    by (induction bs) (simp_all add: hex2_ascii)
  then show ?thesis by (simp add: hmacSha256Hex_def)
qed

lemma signature_ok_iff:
  "signature_ok sign secret t body v1s
   \<longleftrightarrow> hmacSha256Hex sign secret (t @ js ''.'' @ body) \<in> set v1s"
  using encode_ascii_eq [OF hmacSha256Hex_ascii]
  by (auto simp: signature_ok_def Let_def list_ex_iff timingSafeEqualBytes_iff)

lemma falsy_simps: "falsy None" "falsy (Some s) \<longleftrightarrow> s = []"
  by (simp_all add: falsy_def)

lemma process_event_status:
  "http_status (fst (process_event ext body d)) = 200 \<or> http_status (fst (process_event ext body d)) = 500"
  by (auto simp: process_event_def json_def Let_def split: sum.splits option.splits)

text \<open>
  C3. For a request that reaches the signature check (configuration present, a header
  with a timestamp inside the tolerance and at least one \<open>v1\<close> value), the check
  passes exactly when some \<open>v1\<close> value of the header is the hex HMAC of
  \<open>"{t}.{body}"\<close> under the secret. With the header kept and any body whose HMAC is
  not among the header's values, the response is 401 and the store is unchanged.
  What follows an accepted signature never answers 401. In the witness the header
  separates its parts with white space, U+00A0 and U+FEFF among it.
\<close>

theorem webhook_signature_check:
  assumes "\<not> falsy (wh_SUPABASE_URL env)" and "\<not> falsy (wh_SUPABASE_SERVICE_ROLE_KEY env)"
    and "wh_STRIPE_WEBHOOK_SECRET env = Some secret" and "secret \<noteq> []"
    and "stripe_signature_header req = Some header"
    and "parseStripeSignature header = \<lparr>sig_t = Some t, sig_v1s = v1s\<rparr>"
    and "t \<noteq> []" and "v1s \<noteq> []"
    and "wh_Number ext t = Some ts" and "\<bar>real (wh_Date_now ext div 1000) - ts\<bar> \<le> 300"
  shows
    "(signature_ok (wh_sign ext) secret t body v1s
        \<longleftrightarrow> hmacSha256Hex (wh_sign ext) secret (t @ js ''.'' @ body) \<in> set v1s)
     \<and> stripe_webhook ext env (req\<lparr>raw_body := body\<rparr>) d
         = (if hmacSha256Hex (wh_sign ext) secret (t @ js ''.'' @ body) \<in> set v1s
            then process_event ext body d
            else (json 401 (WhError ''invalid signature''), d))
     \<and> http_status (fst (process_event ext body d)) \<noteq> 401"
proof (intro conjI)
  show "signature_ok (wh_sign ext) secret t body v1s
        \<longleftrightarrow> hmacSha256Hex (wh_sign ext) secret (t @ js ''.'' @ body) \<in> set v1s"
    by (rule signature_ok_iff)
  show "stripe_webhook ext env (req\<lparr>raw_body := body\<rparr>) d
         = (if hmacSha256Hex (wh_sign ext) secret (t @ js ''.'' @ body) \<in> set v1s
            then process_event ext body d
            else (json 401 (WhError ''invalid signature''), d))"
    using assms by (simp add: stripe_webhook_def falsy_simps signature_ok_iff)
  show "http_status (fst (process_event ext body d)) \<noteq> 401"
    using process_event_status [of ext body d] by auto
qed

lemma example_hmac:
  "hmacSha256Hex example_sign (js ''whsec'') (js ''1000'' @ js ''.'' @ js ''{}'') = js ''0507''"
  "hmacSha256Hex example_sign (js ''whsec'') (js ''1000'' @ js ''.'' @ js ''[1]'') = js ''0508''"
  "hmacSha256Hex example_sign (js ''whsec'') (js ''699'' @ js ''.'' @ js ''{}'') = js ''0506''"
  by (simp_all add: hmacSha256Hex_def example_sign_def js_def encode_ascii hex2_def hex_digit_def)

lemma example_Number_digits:
  "example_Number (js ''1000'') = Some 1000" "example_Number (js ''699'') = Some 699"
  by (simp_all add: example_Number_def js_def)

theorem webhook_signature_check_witness:
  "parseStripeSignature (js ''t=1000, v1=00 ,'' @ 0x00A0 # js ''v1=0507'' @ [0xFEFF])
     = \<lparr>sig_t = Some (js ''1000''), sig_v1s = [js ''00'', js ''0507'']\<rparr>
   \<and> stripe_webhook example_webhook_ext example_webhook_env
      \<lparr>stripe_signature_header = Some (js ''t=1000, v1=00 ,'' @ 0x00A0 # js ''v1=0507'' @ [0xFEFF]),
       raw_body = js ''{}''\<rparr> example_db
     = process_event example_webhook_ext (js ''{}'') example_db
   \<and> stripe_webhook example_webhook_ext example_webhook_env
      \<lparr>stripe_signature_header = Some (js ''t=1000, v1=00 ,'' @ 0x00A0 # js ''v1=0507'' @ [0xFEFF]),
       raw_body = js ''[1]''\<rparr> example_db
     = (json 401 (WhError ''invalid signature''), example_db)"
proof -
  let ?header = "js ''t=1000, v1=00 ,'' @ 0x00A0 # js ''v1=0507'' @ [0xFEFF]"
  have p: "parseStripeSignature ?header = \<lparr>sig_t = Some (js ''1000''), sig_v1s = [js ''00'', js ''0507'']\<rparr>"
    by code_simp
  have n: "wh_Number example_webhook_ext (js ''1000'') = Some 1000"
    by (simp add: example_webhook_ext_def example_Number_digits)
  have tol: "\<bar>real (wh_Date_now example_webhook_ext div 1000) - 1000\<bar> \<le> 300"
    by (simp add: example_webhook_ext_def)
  have sg: "wh_sign example_webhook_ext = example_sign"
    by (simp add: example_webhook_ext_def)
  have e: "\<not> falsy (wh_SUPABASE_URL example_webhook_env)"
    "\<not> falsy (wh_SUPABASE_SERVICE_ROLE_KEY example_webhook_env)"
    "wh_STRIPE_WEBHOOK_SECRET example_webhook_env = Some (js ''whsec'')" "js ''whsec'' \<noteq> []"
    "js ''1000'' \<noteq> []"
    by (simp_all add: example_webhook_env_def falsy_simps js_def)
  have h: "stripe_signature_header
             \<lparr>stripe_signature_header = Some ?header, raw_body = js ''{}''\<rparr> = Some ?header"
    by simp
  note th = webhook_signature_check [OF e(1-4) h p e(5) _ n tol, THEN conjunct2, THEN conjunct1]
  have d: "js ''0508'' \<noteq> js ''0507''" "js ''0508'' \<noteq> js ''00''"
    by (simp_all add: js_def)
  show ?thesis
    using p th [of "js ''{}''" example_db] th [of "js ''[1]''" example_db]
    unfolding sg example_hmac
    by (simp add: d)
qed

text \<open>
  C5. For a request with a timestamp and at least one \<open>v1\<close> value (configuration
  present), a timestamp more than 300 seconds away from the current time gives 401 and
  leaves the store unchanged, whatever the HMAC function, the signature values and the
  body are: the check comes before every signature comparison. The witness is a request
  301 seconds in the past that carries a valid signature.
\<close>

theorem webhook_timestamp_tolerance:
  assumes "\<not> falsy (wh_SUPABASE_URL env)" and "\<not> falsy (wh_SUPABASE_SERVICE_ROLE_KEY env)"
    and "\<not> falsy (wh_STRIPE_WEBHOOK_SECRET env)"
    and "stripe_signature_header req = Some header"
    and "sig_t (parseStripeSignature header) = Some t" and "t \<noteq> []"
    and "sig_v1s (parseStripeSignature header) \<noteq> []"
    and "wh_Number ext t = Some ts" and "\<bar>real (wh_Date_now ext div 1000) - ts\<bar> > 300"
  shows
    "stripe_webhook (ext\<lparr>wh_sign := sign\<rparr>) env (req\<lparr>raw_body := body\<rparr>) d
       = (json 401 (WhError ''timestamp outside tolerance''), d)"
  using assms by (simp add: stripe_webhook_def Let_def)

theorem webhook_timestamp_tolerance_witness:
  "parseStripeSignature (0x00A0 # js ''t=699 ,t=1000,v1=0506'')
     = \<lparr>sig_t = Some (js ''699''), sig_v1s = [js ''0506'']\<rparr>
   \<and> hmacSha256Hex (wh_sign example_webhook_ext) (js ''whsec'') (js ''699'' @ js ''.'' @ js ''{}'')
     = js ''0506''
   \<and> \<bar>real (wh_Date_now example_webhook_ext div 1000) - 699\<bar> = 301
   \<and> stripe_webhook example_webhook_ext example_webhook_env
        \<lparr>stripe_signature_header = Some (0x00A0 # js ''t=699 ,t=1000,v1=0506''),
         raw_body = js ''{}''\<rparr> example_db
       = (json 401 (WhError ''timestamp outside tolerance''), example_db)"
proof -
  let ?header = "0x00A0 # js ''t=699 ,t=1000,v1=0506''"
  have p: "parseStripeSignature ?header = \<lparr>sig_t = Some (js ''699''), sig_v1s = [js ''0506'']\<rparr>"
    by code_simp
  have n: "wh_Number example_webhook_ext (js ''699'') = Some 699"
    by (simp add: example_webhook_ext_def example_Number_digits)
  have tol: "\<bar>real (wh_Date_now example_webhook_ext div 1000) - 699\<bar> > 300"
    by (simp add: example_webhook_ext_def)
  have sg: "wh_sign example_webhook_ext = example_sign"
    by (simp add: example_webhook_ext_def)
  have e: "\<not> falsy (wh_SUPABASE_URL example_webhook_env)"
    "\<not> falsy (wh_SUPABASE_SERVICE_ROLE_KEY example_webhook_env)"
    "\<not> falsy (wh_STRIPE_WEBHOOK_SECRET example_webhook_env)"
    "js ''699'' \<noteq> []"
    by (simp_all add: example_webhook_env_def falsy_simps js_def)
  have x: "example_webhook_ext\<lparr>wh_sign := example_sign\<rparr> = example_webhook_ext"
    by (simp add: example_webhook_ext_def)
  have "stripe_webhook (example_webhook_ext\<lparr>wh_sign := example_sign\<rparr>) example_webhook_env
          (\<lparr>stripe_signature_header = Some ?header, raw_body = js ''{}''\<rparr>\<lparr>raw_body := js ''{}''\<rparr>)
          example_db
        = (json 401 (WhError ''timestamp outside tolerance''), example_db)"
    by (rule webhook_timestamp_tolerance [where header = ?header and t = "js ''699''" and ts = 699])
       (simp_all add: p n tol e)
  then show ?thesis
    using p unfolding x sg example_hmac by (simp add: example_webhook_ext_def)
qed

section \<open>The checkout-completed branch\<close>

lemma checkout_completed_nofault:
  assumes "wh_f_orders ext = None" "wh_f_payments_update ext = None" "wh_f_payments_insert ext = None"
  shows "checkout_completed ext k sid s d =
     \<lparr>db_orders = map (\<lambda>row. if oid row = k
                              then row\<lparr>payment_status := Some ''paid'', payment_method := Some ''card'',
                                       updated_at := Some (wh_new_Date ext)\<rparr>
                              else row) (db_orders d),
      db_payments =
        (if filter (session_matches k sid) (db_payments d) = []
         then db_payments d @ [paid_row ext k sid s]
         else map (\<lambda>p. if session_matches k sid p
                        then p\<lparr>p_status := ''paid'', p_updated_at := wh_new_Date ext\<rparr> else p)
                (db_payments d))\<rparr>"
  using assms
  by (simp add: checkout_completed_def update_where_def insert_row_def Let_def paid_row_def
        map_patch_none)

lemma process_event_completed:
  assumes "wh_JSON_parse ext body = Inr ev"
    and "ev_type ev = Some ''checkout.session.completed''"
    and "ev_object ev = Some s"
    and "cs_id s = Some sid" and "sid \<noteq> []"
    and "(case cs_metadata_order_id s of Some k \<Rightarrow> Some k | None \<Rightarrow> cs_client_reference_id s) = Some k"
    and "k \<noteq> []"
  shows "process_event ext body d = (json 200 WhOk, checkout_completed ext k sid s d)"
  using assms by (simp add: process_event_def falsy_simps)





lemma matches_paid_row: "session_matches k sid (paid_row ext k sid s)"
  by (simp add: session_matches_def paid_row_def)

lemma matches_patch:
  "session_matches k sid (p\<lparr>p_status := st, p_updated_at := n\<rparr>) = session_matches k sid p"
  by (simp add: session_matches_def)

lemma filter_matches_patched:
  "filter (session_matches k sid)
     (map (\<lambda>p. if session_matches k sid p then p\<lparr>p_status := st, p_updated_at := n\<rparr> else p) ps)
   = map (\<lambda>p. p\<lparr>p_status := st, p_updated_at := n\<rparr>) (filter (session_matches k sid) ps)"
  by (rule filter_map_patch) (simp add: matches_patch)

lemma completed_payments:
  assumes "wh_f_orders ext = None" "wh_f_payments_update ext = None" "wh_f_payments_insert ext = None"
  shows "filter (session_matches k sid) (db_payments (checkout_completed ext k sid s d))
         = (if filter (session_matches k sid) (db_payments d) = []
            then [paid_row ext k sid s]
            else map (\<lambda>p. p\<lparr>p_status := ''paid'', p_updated_at := wh_new_Date ext\<rparr>)
                   (filter (session_matches k sid) (db_payments d)))"
proof (cases "filter (session_matches k sid) (db_payments d) = []")
  case True
  then show ?thesis
    by (simp add: checkout_completed_nofault [OF assms] matches_paid_row)
next
  case False
  then show ?thesis
    by (simp add: checkout_completed_nofault [OF assms] filter_matches_patched)
qed

lemma completed_payments_once:
  assumes "wh_f_orders ext = None" "wh_f_payments_update ext = None" "wh_f_payments_insert ext = None"
    and "length (filter (session_matches k sid) (db_payments d)) \<le> 1"
  shows "length (filter (session_matches k sid) (db_payments (checkout_completed ext k sid s d))) = 1"
proof (cases "filter (session_matches k sid) (db_payments d)")
  case Nil
  then show ?thesis by (simp add: completed_payments [OF assms(1-3)])
next
  case (Cons a as)
  with assms(4) show ?thesis by (simp add: completed_payments [OF assms(1-3)])
qed

lemma completed_payments_paid:
  assumes "wh_f_orders ext = None" "wh_f_payments_update ext = None" "wh_f_payments_insert ext = None"
  shows "list_all (\<lambda>p. p_status p = ''paid'')
           (filter (session_matches k sid) (db_payments (checkout_completed ext k sid s d)))"
  by (simp add: completed_payments [OF assms] paid_row_def list_all_iff)



lemma completed_orders:
  assumes "wh_f_orders ext = None" "wh_f_payments_update ext = None" "wh_f_payments_insert ext = None"
  shows "db_orders (checkout_completed ext k sid s d)
         = map (\<lambda>row. if oid row = k
                       then row\<lparr>payment_status := Some ''paid'', payment_method := Some ''card'',
                                updated_at := Some (wh_new_Date ext)\<rparr>
                       else row) (db_orders d)"
  by (simp add: checkout_completed_nofault [OF assms])

lemma completed_again_payments:
  assumes "filter (session_matches k sid) ps \<noteq> []"
    and "list_all (\<lambda>p. p_status p = ''paid'') (filter (session_matches k sid) ps)"
  shows "(if filter (session_matches k sid) ps = []
          then ps @ [paid_row (ext\<lparr>wh_new_Date := n2\<rparr>) k sid s]
          else map (\<lambda>p. if session_matches k sid p
                         then p\<lparr>p_status := ''paid'', p_updated_at := n2\<rparr> else p) ps)
         = map (\<lambda>p. if session_matches k sid p then p\<lparr>p_updated_at := n2\<rparr> else p) ps"
proof -
  have "\<And>p. p \<in> set ps \<Longrightarrow> session_matches k sid p \<Longrightarrow> p_status p = ''paid''"
    using assms(2) by (simp add: list_all_iff)
  then have "map (\<lambda>p. if session_matches k sid p
                         then p\<lparr>p_status := ''paid'', p_updated_at := n2\<rparr> else p) ps
             = map (\<lambda>p. if session_matches k sid p then p\<lparr>p_updated_at := n2\<rparr> else p) ps"
    by (intro map_cong refl) simp
  with assms(1) show ?thesis by simp
qed

lemma completed_again_orders:
  "map (\<lambda>row. if oid row = k
               then row\<lparr>payment_status := Some ''paid'', payment_method := Some ''card'',
                        updated_at := Some n2\<rparr>
               else row)
     (map (\<lambda>row. if oid row = k
                  then row\<lparr>payment_status := Some ''paid'', payment_method := Some ''card'',
                           updated_at := Some n1\<rparr>
                  else row) tbl)
   = map (\<lambda>row. if oid row = k then row\<lparr>updated_at := Some n2\<rparr> else row)
       (map (\<lambda>row. if oid row = k
                  then row\<lparr>payment_status := Some ''paid'', payment_method := Some ''card'',
                           updated_at := Some n1\<rparr>
                  else row) tbl)"
  by (induction tbl) simp_all

lemma completed_twice:
  assumes "wh_f_orders ext = None" "wh_f_payments_update ext = None" "wh_f_payments_insert ext = None"
  shows "checkout_completed (ext\<lparr>wh_new_Date := n2\<rparr>) k sid s (checkout_completed ext k sid s d)
         = \<lparr>db_orders = map (\<lambda>row. if oid row = k then row\<lparr>updated_at := Some n2\<rparr> else row)
                          (db_orders (checkout_completed ext k sid s d)),
            db_payments = map (\<lambda>p. if session_matches k sid p then p\<lparr>p_updated_at := n2\<rparr> else p)
                            (db_payments (checkout_completed ext k sid s d))\<rparr>"
proof -
  let ?d1 = "checkout_completed ext k sid s d"
  have e2: "wh_f_orders (ext\<lparr>wh_new_Date := n2\<rparr>) = None"
       "wh_f_payments_update (ext\<lparr>wh_new_Date := n2\<rparr>) = None"
       "wh_f_payments_insert (ext\<lparr>wh_new_Date := n2\<rparr>) = None"
    using assms by simp_all
  have ne: "filter (session_matches k sid) (db_payments ?d1) \<noteq> []"
    by (simp add: completed_payments [OF assms])
  have pp: "(if filter (session_matches k sid) (db_payments ?d1) = []
          then db_payments ?d1 @ [paid_row (ext\<lparr>wh_new_Date := n2\<rparr>) k sid s]
          else map (\<lambda>p. if session_matches k sid p
                         then p\<lparr>p_status := ''paid'', p_updated_at := n2\<rparr> else p) (db_payments ?d1))
         = map (\<lambda>p. if session_matches k sid p then p\<lparr>p_updated_at := n2\<rparr> else p) (db_payments ?d1)"
    using ne completed_payments_paid [OF assms] by (rule completed_again_payments)
  have oo: "map (\<lambda>row. if oid row = k
               then row\<lparr>payment_status := Some ''paid'', payment_method := Some ''card'',
                        updated_at := Some n2\<rparr>
               else row) (db_orders ?d1)
            = map (\<lambda>row. if oid row = k then row\<lparr>updated_at := Some n2\<rparr> else row) (db_orders ?d1)"
    unfolding completed_orders [OF assms] by (rule completed_again_orders)
  have "checkout_completed (ext\<lparr>wh_new_Date := n2\<rparr>) k sid s ?d1
        = \<lparr>db_orders = map (\<lambda>row. if oid row = k
               then row\<lparr>payment_status := Some ''paid'', payment_method := Some ''card'',
                        updated_at := Some n2\<rparr>
               else row) (db_orders ?d1),
           db_payments = (if filter (session_matches k sid) (db_payments ?d1) = []
          then db_payments ?d1 @ [paid_row (ext\<lparr>wh_new_Date := n2\<rparr>) k sid s]
          else map (\<lambda>p. if session_matches k sid p
                         then p\<lparr>p_status := ''paid'', p_updated_at := n2\<rparr> else p) (db_payments ?d1))\<rparr>"
    using checkout_completed_nofault [OF e2, of k sid s ?d1] by simp
  then show ?thesis unfolding pp oo .
qed



lemma completed_same_clock:
  assumes "wh_f_orders ext = None" "wh_f_payments_update ext = None" "wh_f_payments_insert ext = None"
  shows "checkout_completed ext k sid s (checkout_completed ext k sid s d)
         = checkout_completed ext k sid s d"
proof -
  let ?d1 = "checkout_completed ext k sid s d"
  let ?n = "wh_new_Date ext"
  have e: "ext\<lparr>wh_new_Date := ?n\<rparr> = ext" by simp
  have t: "checkout_completed ext k sid s ?d1
         = \<lparr>db_orders = map (\<lambda>row. if oid row = k then row\<lparr>updated_at := Some ?n\<rparr> else row)
                          (db_orders ?d1),
            db_payments = map (\<lambda>p. if session_matches k sid p then p\<lparr>p_updated_at := ?n\<rparr> else p)
                            (db_payments ?d1)\<rparr>"
    using completed_twice [OF assms, of ?n k sid s d] unfolding e .
  have "\<And>p. p \<in> set (filter (session_matches k sid) (db_payments ?d1)) \<Longrightarrow> p_updated_at p = ?n"
    unfolding completed_payments [OF assms] by (auto simp: paid_row_def split: if_splits)
  then have p: "map (\<lambda>p. if session_matches k sid p then p\<lparr>p_updated_at := ?n\<rparr> else p) (db_payments ?d1)
             = db_payments ?d1"
    by (intro map_idI) simp
  have o: "map (\<lambda>row. if oid row = k then row\<lparr>updated_at := Some ?n\<rparr> else row) (db_orders ?d1)
           = db_orders ?d1"
    unfolding completed_orders [OF assms] by (induction "db_orders d") simp_all
  show ?thesis unfolding t p o by simp
qed

lemma patched_orders_paid:
  "list_all (\<lambda>row. payment_status row = Some ''paid'')
     (filter (\<lambda>row. oid row = k)
        (map (\<lambda>row. if oid row = k
                     then row\<lparr>payment_status := Some ''paid'', payment_method := Some ''card'',
                              updated_at := Some n\<rparr>
                     else row) tbl))"
  by (induction tbl) simp_all

text \<open>
  When the store answers every request of both runs and the ledger holds at most one row
  for (\<open>k\<close>, stripe, \<open>sid\<close>), a replay leaves exactly one matching row, paid, and
  changes nothing but \<open>updated_at\<close>.
\<close>

lemma checkout_completed_replay_answered:
  fixes ext :: webhook_ext
  defines "d1 \<equiv> \<lambda>body d. snd (process_event ext body d)"
  assumes "wh_JSON_parse ext body = Inr ev"
    and "ev_type ev = Some ''checkout.session.completed''"
    and "ev_object ev = Some s"
    and "cs_id s = Some sid" and "sid \<noteq> []"
    and "(case cs_metadata_order_id s of Some k \<Rightarrow> Some k | None \<Rightarrow> cs_client_reference_id s) = Some k"
    and "k \<noteq> []"
    and "wh_f_orders ext = None" and "wh_f_payments_update ext = None"
    and "wh_f_payments_insert ext = None"
    and "length (filter (session_matches k sid) (db_payments d)) \<le> 1"
  shows
    "fst (process_event ext body d) = json 200 WhOk
     \<and> fst (process_event (ext\<lparr>wh_new_Date := n2\<rparr>) body (d1 body d)) = json 200 WhOk
     \<and> length (filter (session_matches k sid) (db_payments (d1 body d))) = 1
     \<and> length (filter (session_matches k sid)
                 (db_payments (snd (process_event (ext\<lparr>wh_new_Date := n2\<rparr>) body (d1 body d))))) = 1
     \<and> length (filter (\<lambda>p. session_matches k sid p \<and> p_status p = ''paid'')
                 (db_payments (snd (process_event (ext\<lparr>wh_new_Date := n2\<rparr>) body (d1 body d))))) = 1
     \<and> list_all (\<lambda>row. payment_status row = Some ''paid'')
          (filter (\<lambda>row. oid row = k)
             (db_orders (snd (process_event (ext\<lparr>wh_new_Date := n2\<rparr>) body (d1 body d)))))
     \<and> snd (process_event (ext\<lparr>wh_new_Date := n2\<rparr>) body (d1 body d))
         = \<lparr>db_orders = map (\<lambda>row. if oid row = k then row\<lparr>updated_at := Some n2\<rparr> else row)
                          (db_orders (d1 body d)),
            db_payments = map (\<lambda>p. if session_matches k sid p then p\<lparr>p_updated_at := n2\<rparr> else p)
                            (db_payments (d1 body d))\<rparr>
     \<and> snd (process_event ext body (d1 body d)) = d1 body d"
proof -
  let ?ext2 = "ext\<lparr>wh_new_Date := n2\<rparr>"
  let ?c1 = "checkout_completed ext k sid s d"
  let ?c2 = "checkout_completed ?ext2 k sid s ?c1"
  note nf = assms(9-11)
  have nf2: "wh_f_orders ?ext2 = None" "wh_f_payments_update ?ext2 = None"
    "wh_f_payments_insert ?ext2 = None" using nf by simp_all
  have pe: "process_event ext body x = (json 200 WhOk, checkout_completed ext k sid s x)" for x
    using assms(2-8) by (rule process_event_completed)
  have pe2: "process_event ?ext2 body x = (json 200 WhOk, checkout_completed ?ext2 k sid s x)" for x
    using assms(2-8) by (intro process_event_completed) simp_all
  have one1: "length (filter (session_matches k sid) (db_payments ?c1)) = 1"
    using nf assms(12) by (rule completed_payments_once)
  have one2: "length (filter (session_matches k sid) (db_payments ?c2)) = 1"
    using nf2 by (rule completed_payments_once) (simp add: one1)
  have paid2: "list_all (\<lambda>p. p_status p = ''paid'') (filter (session_matches k sid) (db_payments ?c2))"
    using nf2 by (rule completed_payments_paid)
  have "filter (\<lambda>p. session_matches k sid p \<and> p_status p = ''paid'') (db_payments ?c2)
        = filter (session_matches k sid) (db_payments ?c2)"
    using paid2 by (intro filter_cong refl) (auto simp: list_all_iff)
  then have onepaid: "length (filter (\<lambda>p. session_matches k sid p \<and> p_status p = ''paid'')
                                   (db_payments ?c2)) = 1"
    using one2 by simp
  have ord2: "list_all (\<lambda>row. payment_status row = Some ''paid'')
                (filter (\<lambda>row. oid row = k) (db_orders ?c2))"
    unfolding completed_orders [OF nf2] by (rule patched_orders_paid)
  show ?thesis
    unfolding d1_def pe pe2
    using one1 one2 onepaid ord2 completed_twice [OF nf, of n2 k sid s d]
      completed_same_clock [OF nf, of k sid s d]
    by simp
qed



text \<open>
  C4. The same checkout-completed event processed twice, where the second run's update of
  the ledger comes back with an error: the handler logs the error, takes the missing
  rows for "no row", and inserts. Both runs answer 200 and the ledger holds two paid
  rows for the one session.
\<close>

theorem checkout_completed_replay_duplicates:
  "process_event example_webhook_ext (js ''{}'') example_db
     = (json 200 WhOk,
        \<lparr>db_orders =
           [(example_order ''o1'' ''pending'' (Some ''paid'') None)
              \<lparr>payment_method := Some ''card'', updated_at := Some 1000200\<rparr>,
            example_order ''o2'' ''assigned'' (Some ''paid'') (Some ''r2'')],
         db_payments =
           [\<lparr>p_order_id = ''o1'', provider = ''stripe'', provider_payment_id = Some ''cs_1'',
             amount_cents = 500, currency = ''ZAR'', p_status = ''paid'',
             p_created_at = 1000200, p_updated_at = 1000200\<rparr>]\<rparr>)
   \<and> fst (process_event (example_webhook_ext\<lparr>wh_f_payments_update := Some ''upstream request timeout''\<rparr>)
          (js ''{}'') (snd (process_event example_webhook_ext (js ''{}'') example_db)))
     = json 200 WhOk
   \<and> db_payments
        (snd (process_event (example_webhook_ext\<lparr>wh_f_payments_update := Some ''upstream request timeout''\<rparr>)
               (js ''{}'') (snd (process_event example_webhook_ext (js ''{}'') example_db))))
     = [\<lparr>p_order_id = ''o1'', provider = ''stripe'', provider_payment_id = Some ''cs_1'',
         amount_cents = 500, currency = ''ZAR'', p_status = ''paid'',
         p_created_at = 1000200, p_updated_at = 1000200\<rparr>,
        \<lparr>p_order_id = ''o1'', provider = ''stripe'', provider_payment_id = Some ''cs_1'',
         amount_cents = 500, currency = ''ZAR'', p_status = ''paid'',
         p_created_at = 1000200, p_updated_at = 1000200\<rparr>]"
proof -
  let ?ext2 = "example_webhook_ext\<lparr>wh_f_payments_update := Some ''upstream request timeout''\<rparr>"
  have u: "example_toUpperCase ''zar'' = ''ZAR''" by code_simp
  have p: "wh_JSON_parse example_webhook_ext (js ''{}'')
           = Inr \<lparr>ev_type = Some ''checkout.session.completed'', ev_object = Some example_session\<rparr>"
    "wh_JSON_parse ?ext2 (js ''{}'')
           = Inr \<lparr>ev_type = Some ''checkout.session.completed'', ev_object = Some example_session\<rparr>"
    by (simp_all add: example_webhook_ext_def example_JSON_parse_def)
  have s: "cs_id example_session = Some ''cs_1''"
    "(case cs_metadata_order_id example_session of Some k \<Rightarrow> Some k
      | None \<Rightarrow> cs_client_reference_id example_session) = Some ''o1''"
    by (simp_all add: example_session_def)
  have pe: "process_event example_webhook_ext (js ''{}'') x
            = (json 200 WhOk, checkout_completed example_webhook_ext ''o1'' ''cs_1'' example_session x)"
    for x
    using process_event_completed [OF p(1) _ _ s(1) _ s(2), of x] by simp
  have pe2: "process_event ?ext2 (js ''{}'') x
            = (json 200 WhOk, checkout_completed ?ext2 ''o1'' ''cs_1'' example_session x)" for x
    using process_event_completed [OF p(2) _ _ s(1) _ s(2), of x] by simp
  have c1: "checkout_completed example_webhook_ext ''o1'' ''cs_1'' example_session example_db
            = \<lparr>db_orders =
                 [(example_order ''o1'' ''pending'' (Some ''paid'') None)
                    \<lparr>payment_method := Some ''card'', updated_at := Some 1000200\<rparr>,
                  example_order ''o2'' ''assigned'' (Some ''paid'') (Some ''r2'')],
               db_payments =
                 [\<lparr>p_order_id = ''o1'', provider = ''stripe'', provider_payment_id = Some ''cs_1'',
                   amount_cents = 500, currency = ''ZAR'', p_status = ''paid'',
                   p_created_at = 1000200, p_updated_at = 1000200\<rparr>]\<rparr>"
    by (simp add: checkout_completed_def update_where_def insert_row_def Let_def u example_db_def
          example_webhook_ext_def example_session_def example_order_def session_matches_def)
  have c2: "db_payments (checkout_completed ?ext2 ''o1'' ''cs_1'' example_session
              \<lparr>db_orders = os,
               db_payments =
                 [\<lparr>p_order_id = ''o1'', provider = ''stripe'', provider_payment_id = Some ''cs_1'',
                   amount_cents = 500, currency = ''ZAR'', p_status = ''paid'',
                   p_created_at = 1000200, p_updated_at = 1000200\<rparr>]\<rparr>)
            = [\<lparr>p_order_id = ''o1'', provider = ''stripe'', provider_payment_id = Some ''cs_1'',
                amount_cents = 500, currency = ''ZAR'', p_status = ''paid'',
                p_created_at = 1000200, p_updated_at = 1000200\<rparr>,
               \<lparr>p_order_id = ''o1'', provider = ''stripe'', provider_payment_id = Some ''cs_1'',
                amount_cents = 500, currency = ''ZAR'', p_status = ''paid'',
                p_created_at = 1000200, p_updated_at = 1000200\<rparr>]" for os
    by (simp add: checkout_completed_def update_where_def insert_row_def Let_def u
          example_webhook_ext_def example_session_def)
  show ?thesis unfolding pe pe2 c1 by (simp add: c2)
qed



section \<open>The checkout-session endpoint\<close>











lemma tag_card_intent_executed:
  "tag_card_intent now k None tbl
   = map (\<lambda>row. if oid row = k then row\<lparr>payment_method := Some ''card'', updated_at := Some now\<rparr>
                 else row) tbl"
  by (simp add: tag_card_intent_def update_where_def)

lemma select_maybeSingle_oid:
  assumes "rdata (select_maybeSingle (\<lambda>row. oid row = k) flt tbl) = Some ord"
  shows "oid ord = k"
proof -
  have "filter (\<lambda>row. oid row = k) tbl = [ord]"
    using assms by (auto simp: select_maybeSingle_def split: option.splits list.splits)
  then have "ord \<in> set (filter (\<lambda>row. oid row = k) tbl)" by simp
  then show ?thesis by simp
qed

lemma checkout_session_orders:
  "db_orders (snd (checkout_session ext env ord amount d))
   = tag_card_intent (co_new_Date_tag ext) (oid ord) (co_f_tag ext) (db_orders d)"
  by (simp add: checkout_session_def Let_def split: fetch_result.splits)

lemma checkout_order_passed:
  assumes "http_status (fst (checkout_order ext env k au d)) = 200
           \<or> http_status (fst (checkout_order ext env k au d)) = 502"
  shows "db_orders (snd (checkout_order ext env k au d))
         = tag_card_intent (co_new_Date_tag ext) k (co_f_tag ext) (db_orders d)"
proof (cases "rerror (select_maybeSingle (\<lambda>row. oid row = k) (co_f_select ext) (db_orders d))")
  case (Some e)
  with assms show ?thesis by (simp add: checkout_order_def json_def)
next
  case None
  show ?thesis
  proof (cases "rdata (select_maybeSingle (\<lambda>row. oid row = k) (co_f_select ext) (db_orders d))")
    case n: None
    with None assms show ?thesis by (simp add: checkout_order_def json_def)
  next
    case (Some ord)
    then have k: "oid ord = k" by (rule select_maybeSingle_oid)
    let ?amount = "case total_cents ord of None \<Rightarrow> 0 | Some c \<Rightarrow> c"
    show ?thesis
    proof (cases "user_id ord \<noteq> auth_user_id au \<or> payment_status ord = Some ''paid''
                  \<or> status ord \<in> set [''cancelled'', ''delivered'', ''failed''] \<or> ?amount < 100")
      case True
      then have "http_status (fst (checkout_order ext env k au d)) \<in> {403, 409, 400}"
        using None Some by (auto simp: checkout_order_def json_def Let_def)
      with assms show ?thesis by auto
    next
      case False
      then have "checkout_order ext env k au d = checkout_session ext env ord ?amount d"
        using None Some by (simp add: checkout_order_def Let_def)
      then show ?thesis using k by (simp add: checkout_session_orders)
    qed
  qed
qed

lemma create_checkout_passed:
  assumes "req_method req = ''POST''" and "req_order_id req = Some k"
    and "http_status (fst (create_checkout ext env req d)) = 200
         \<or> http_status (fst (create_checkout ext env req d)) = 502"
  shows "db_orders (snd (create_checkout ext env req d))
         = tag_card_intent (co_new_Date_tag ext) k (co_f_tag ext) (db_orders d)"
proof -
  let ?au = "co_getUser ext (case req_authorization req of None \<Rightarrow> [] | Some h \<Rightarrow> h)"
  show ?thesis
  proof (cases "create_checkout ext env req d = checkout_order ext env k ?au d")
    case True
    with assms(3) show ?thesis by (simp add: checkout_order_passed)
  next
    case False
    then have "http_status (fst (create_checkout ext env req d)) \<in> {500, 400, 401}"
      using assms(1,2) by (auto simp: create_checkout_def json_def Let_def split: if_splits)
    with assms(3) show ?thesis by auto
  qed
qed


text \<open>
  C9. A POST call that ends in success (200), and equally one that ends in the provider's
  refusal (502), has set \<open>payment_method = card\<close> and \<open>updated_at\<close> on the rows with the
  request's order id and changed nothing else in the orders table, provided the store
  executed the update. The update itself is keyed by the order id alone: on any table, in
  any status, it patches the rows with that id.
\<close>

theorem create_checkout_tags_card:
  assumes "req_method req = ''POST''" and "req_order_id req = Some k"
    and "http_status (fst (create_checkout ext env req d)) = 200
         \<or> http_status (fst (create_checkout ext env req d)) = 502"
    and "co_f_tag ext = None"
  shows
    "db_orders (snd (create_checkout ext env req d))
       = map (\<lambda>row. if oid row = k
                     then row\<lparr>payment_method := Some ''card'', updated_at := Some (co_new_Date_tag ext)\<rparr>
                     else row) (db_orders d)
     \<and> tag_card_intent now k None tbl
       = map (\<lambda>row. if oid row = k then row\<lparr>payment_method := Some ''card'', updated_at := Some now\<rparr>
                     else row) tbl"
  using create_checkout_passed [OF assms(1-3)] assms(4)
  by (simp add: tag_card_intent_executed)

theorem create_checkout_tags_card_witness:
  "http_status (fst (create_checkout
      (example_checkout_ext (\<lambda>_. FetchResponse True \<lparr>ss_id = Some ''cs_1'', ss_url = Some ''https://checkout.stripe.com/c/cs_1''\<rparr>))
      example_checkout_env
      \<lparr>req_method = ''POST'', req_order_id = Some ''o1'', req_authorization = Some ''Bearer u1''\<rparr>
      example_db)) = 200
   \<and> db_orders (snd (create_checkout
      (example_checkout_ext (\<lambda>_. FetchResponse True \<lparr>ss_id = Some ''cs_1'', ss_url = Some ''https://checkout.stripe.com/c/cs_1''\<rparr>))
      example_checkout_env
      \<lparr>req_method = ''POST'', req_order_id = Some ''o1'', req_authorization = Some ''Bearer u1''\<rparr>
      example_db))
     = [(example_order ''o1'' ''pending'' (Some ''unpaid'') None)
          \<lparr>payment_method := Some ''card'', updated_at := Some 3000\<rparr>,
        example_order ''o2'' ''assigned'' (Some ''paid'') (Some ''r2'')]
   \<and> tag_card_intent 3000 ''o1'' None
        [(example_order ''o1'' ''delivered'' (Some ''paid'') (Some ''r2''))]
     = [(example_order ''o1'' ''delivered'' (Some ''paid'') (Some ''r2''))
          \<lparr>payment_method := Some ''card'', updated_at := Some 3000\<rparr>]"
proof -
  let ?ext = "example_checkout_ext (\<lambda>_. FetchResponse True \<lparr>ss_id = Some ''cs_1'', ss_url = Some ''https://checkout.stripe.com/c/cs_1''\<rparr>)"
  let ?req = "\<lparr>req_method = ''POST'', req_order_id = Some ''o1'', req_authorization = Some ''Bearer u1''\<rparr>"
  have st: "http_status (fst (create_checkout ?ext example_checkout_env ?req example_db)) = 200"
    by (simp add: create_checkout_def checkout_order_def checkout_session_def
          example_checkout_ext_def example_checkout_env_def falsy_def
          example_getUser_def select_maybeSingle_def example_db_def example_order_def Let_def json_def)
  have t: "co_f_tag ?ext = None" "co_new_Date_tag ?ext = 3000"
    by (simp_all add: example_checkout_ext_def)
  have r: "req_method ?req = ''POST''" "req_order_id ?req = Some ''o1''" by simp_all
  note th = create_checkout_tags_card [OF r disjI1 [OF st] t(1), of 3000
      "[(example_order ''o1'' ''delivered'' (Some ''paid'') (Some ''r2''))]"]
  show ?thesis
    using st th unfolding t(2)
    by (simp add: example_db_def example_order_def)
qed

section \<open>Role resolution\<close>

lemma role_catch: "role (resolveRole_catch m ui) = Some client"
  "app_error (resolveRole_catch m ui)
   = Some (case m of None \<Rightarrow> ''Unable to detect user role.'' | Some x \<Rightarrow> x)"
  "resolvingRole (resolveRole_catch m ui) = False"
  by (simp_all add: resolveRole_catch_def)

text \<open>
  C8, as amended. Resolution always ends with one of admin, rider, client. It is admin
  exactly when the admin call settles before the timer with \<open>data = true\<close> and no error;
  the timer winning is the same as the answer "not admin". Otherwise the rider lookup
  decides: rider when a row comes back (with no error, or with PGRST116), client
  otherwise. An exception thrown by either call resolves to client and sets the error
  banner. An error returned by the admin call or by the rider lookup is only written to
  the console: the banner stays empty, and after an admin error the rider lookup still
  decides.
\<close>

theorem resolveRole_resolution:
  "role (resolveRole rpc rq ui) \<in> {Some admin, Some rider, Some client}
   \<and> resolvingRole (resolveRole rpc rq ui) = False
   \<and> ((role (resolveRole rpc rq ui) = Some admin)
        = (\<exists>a. rpc = SettlesFirst (Resolved a) \<and> adminError a = None \<and> isAdmin a = Some True))
   \<and> resolveRole TimerFirst rq ui
       = resolveRole (SettlesFirst (Resolved \<lparr>isAdmin = Some False, adminError = None\<rparr>)) rq ui
   \<and> (rpc = SettlesFirst (Rejected m) \<longrightarrow>
        role (resolveRole rpc rq ui) = Some client
        \<and> app_error (resolveRole rpc rq ui)
            = Some (case m of None \<Rightarrow> ''Unable to detect user role.'' | Some x \<Rightarrow> x))
   \<and> (safeIsAdminRpc rpc = Resolved a \<and> \<not> (adminError a = None \<and> isAdmin a = Some True) \<longrightarrow>
        (rq = Rejected m \<longrightarrow>
           role (resolveRole rpc rq ui) = Some client
           \<and> app_error (resolveRole rpc rq ui)
               = Some (case m of None \<Rightarrow> ''Unable to detect user role.'' | Some x \<Rightarrow> x))
        \<and> (rq = Resolved r \<longrightarrow>
             role (resolveRole rpc rq ui)
               = (if riderRow r \<noteq> None \<and> (riderError r = None \<or> riderError r = Some ''PGRST116'')
                  then Some rider else Some client)
             \<and> app_error (resolveRole rpc rq ui) = None
             \<and> app_console (resolveRole rpc rq ui)
                 = app_console ui
                   @ (case adminError a of None \<Rightarrow> [] | Some e \<Rightarrow> [e])
                   @ (case riderError r of
                        None \<Rightarrow> []
                      | Some c \<Rightarrow> if c = ''PGRST116'' then [] else [c])))"
proof (intro conjI)
  show "role (resolveRole rpc rq ui) \<in> {Some admin, Some rider, Some client}"
    by (auto simp: resolveRole_def safeIsAdminRpc_def Let_def role_catch
          split: rpc_outcome.splits awaited.splits option.splits)
  show "resolvingRole (resolveRole rpc rq ui) = False"
    by (auto simp: resolveRole_def safeIsAdminRpc_def Let_def role_catch
          split: rpc_outcome.splits awaited.splits option.splits)
  show "(role (resolveRole rpc rq ui) = Some admin)
        = (\<exists>a. rpc = SettlesFirst (Resolved a) \<and> adminError a = None \<and> isAdmin a = Some True)"
    by (auto simp: resolveRole_def safeIsAdminRpc_def Let_def role_catch
          split: rpc_outcome.splits awaited.splits option.splits)
  show "resolveRole TimerFirst rq ui
       = resolveRole (SettlesFirst (Resolved \<lparr>isAdmin = Some False, adminError = None\<rparr>)) rq ui"
    by (simp add: resolveRole_def safeIsAdminRpc_def)
  show "rpc = SettlesFirst (Rejected m) \<longrightarrow>
        role (resolveRole rpc rq ui) = Some client
        \<and> app_error (resolveRole rpc rq ui)
            = Some (case m of None \<Rightarrow> ''Unable to detect user role.'' | Some x \<Rightarrow> x)"
    by (simp add: resolveRole_def safeIsAdminRpc_def role_catch)
  show "safeIsAdminRpc rpc = Resolved a \<and> \<not> (adminError a = None \<and> isAdmin a = Some True) \<longrightarrow>
        (rq = Rejected m \<longrightarrow>
           role (resolveRole rpc rq ui) = Some client
           \<and> app_error (resolveRole rpc rq ui)
               = Some (case m of None \<Rightarrow> ''Unable to detect user role.'' | Some x \<Rightarrow> x))
        \<and> (rq = Resolved r \<longrightarrow>
             role (resolveRole rpc rq ui)
               = (if riderRow r \<noteq> None \<and> (riderError r = None \<or> riderError r = Some ''PGRST116'')
                  then Some rider else Some client)
             \<and> app_error (resolveRole rpc rq ui) = None
             \<and> app_console (resolveRole rpc rq ui)
                 = app_console ui
                   @ (case adminError a of None \<Rightarrow> [] | Some e \<Rightarrow> [e])
                   @ (case riderError r of
                        None \<Rightarrow> []
                      | Some c \<Rightarrow> if c = ''PGRST116'' then [] else [c]))"
    by (auto simp: resolveRole_def Let_def role_catch split: option.splits)
qed

theorem resolveRole_resolution_witness:
  "role (resolveRole (SettlesFirst (Resolved \<lparr>isAdmin = Some True, adminError = None\<rparr>))
          (Resolved \<lparr>riderRow = None, riderError = None\<rparr>) example_app_ui) = Some admin
   \<and> role (resolveRole TimerFirst
          (Resolved \<lparr>riderRow = Some ''r1'', riderError = None\<rparr>) example_app_ui) = Some rider
   \<and> role (resolveRole TimerFirst
          (Resolved \<lparr>riderRow = None, riderError = None\<rparr>) example_app_ui) = Some client
   \<and> role (resolveRole (SettlesFirst (Rejected (Some ''Failed to fetch'')))
          (Resolved \<lparr>riderRow = Some ''r1'', riderError = None\<rparr>) example_app_ui) = Some client
   \<and> app_error (resolveRole (SettlesFirst (Rejected (Some ''Failed to fetch'')))
          (Resolved \<lparr>riderRow = Some ''r1'', riderError = None\<rparr>) example_app_ui)
       = Some ''Failed to fetch''"
proof -
  let ?rider = "Resolved \<lparr>riderRow = Some ''r1'', riderError = None\<rparr>"
  let ?none = "Resolved \<lparr>riderRow = None, riderError = None\<rparr>"
  let ?quiet = "\<lparr>isAdmin = None, adminError = None\<rparr>"
  have t: "safeIsAdminRpc TimerFirst = Resolved ?quiet"
    "\<not> (adminError ?quiet = None \<and> isAdmin ?quiet = Some True)"
    by (simp_all add: safeIsAdminRpc_def)
  have a: "role (resolveRole (SettlesFirst (Resolved \<lparr>isAdmin = Some True, adminError = None\<rparr>))
                   ?none example_app_ui) = Some admin"
    using resolveRole_resolution
      [where rpc = "SettlesFirst (Resolved \<lparr>isAdmin = Some True, adminError = None\<rparr>)"
         and rq = ?none and ui = example_app_ui,
       THEN conjunct2, THEN conjunct2, THEN conjunct1]
    by simp
  have "role (resolveRole TimerFirst ?rider example_app_ui)
        = (if riderRow \<lparr>riderRow = Some ''r1'', riderError = None\<rparr> \<noteq> None
              \<and> (riderError \<lparr>riderRow = Some ''r1'', riderError = None\<rparr> = None
                   \<or> riderError \<lparr>riderRow = Some ''r1'', riderError = None\<rparr> = Some ''PGRST116'')
           then Some rider else Some client)"
    using resolveRole_resolution
      [where rpc = TimerFirst and rq = ?rider and ui = example_app_ui and a = ?quiet
         and r = "\<lparr>riderRow = Some ''r1'', riderError = None\<rparr>"] t
    by blast
  then have r: "role (resolveRole TimerFirst ?rider example_app_ui) = Some rider" by simp
  have "role (resolveRole TimerFirst ?none example_app_ui)
        = (if riderRow \<lparr>riderRow = None, riderError = None\<rparr> \<noteq> None
              \<and> (riderError \<lparr>riderRow = None, riderError = None\<rparr> = None
                   \<or> riderError \<lparr>riderRow = None, riderError = None\<rparr> = Some ''PGRST116'')
           then Some rider else Some client)"
    using resolveRole_resolution
      [where rpc = TimerFirst and rq = ?none and ui = example_app_ui and a = ?quiet
         and r = "\<lparr>riderRow = None, riderError = None\<rparr>"] t
    by blast
  then have c: "role (resolveRole TimerFirst ?none example_app_ui) = Some client" by simp
  have e: "role (resolveRole (SettlesFirst (Rejected (Some ''Failed to fetch''))) ?rider example_app_ui)
             = Some client
           \<and> app_error (resolveRole (SettlesFirst (Rejected (Some ''Failed to fetch''))) ?rider
                example_app_ui) = Some ''Failed to fetch''"
    using resolveRole_resolution
      [where rpc = "SettlesFirst (Rejected (Some ''Failed to fetch''))" and rq = ?rider
         and ui = example_app_ui and m = "Some ''Failed to fetch''",
       THEN conjunct2, THEN conjunct2, THEN conjunct2, THEN conjunct2, THEN conjunct1]
    by simp
  show ?thesis using a r c e by simp
qed

text \<open>
  The claim as stated fails when the admin call returns an error and a rider profile is
  linked: the role is rider, not client, and no message reaches the banner. Nor does a
  returned error of the rider lookup reach the banner.
\<close>

theorem resolveRole_counterexample:
  "role (resolveRole (SettlesFirst (Resolved \<lparr>isAdmin = None, adminError = Some ''permission denied''\<rparr>))
          (Resolved \<lparr>riderRow = Some ''r1'', riderError = None\<rparr>) example_app_ui) = Some rider
   \<and> app_error (resolveRole (SettlesFirst (Resolved \<lparr>isAdmin = None, adminError = Some ''permission denied''\<rparr>))
          (Resolved \<lparr>riderRow = Some ''r1'', riderError = None\<rparr>) example_app_ui) = None
   \<and> app_error (resolveRole TimerFirst
          (Resolved \<lparr>riderRow = None, riderError = Some ''42501''\<rparr>) example_app_ui) = None"
  by (simp add: resolveRole_def safeIsAdminRpc_def example_app_ui_def)

section \<open>Customer cancel\<close>

text \<open>
  C2. The order is delivered in the store while the customer's page, last refreshed
  before the delivery, still shows it en route and so still offers the cancel button.
  \<open>handleCancelOrder\<close> then sets the delivered order to cancelled and reports no error:
  its update is filtered by the order id only.
\<close>

theorem handleCancelOrder_overwrites_delivered:
  "map status example_delivered_orders = [''delivered'']
   \<and> cancel_button_shown example_stale_client_ui
   \<and> map status (snd (handleCancelOrder True None None 50 50 example_stale_client_ui
                        example_delivered_orders)) = [''cancelled'']
   \<and> map delivered_at (snd (handleCancelOrder True None None 50 50 example_stale_client_ui
                        example_delivered_orders)) = [Some 40]
   \<and> map cancelled_at (snd (handleCancelOrder True None None 50 50 example_stale_client_ui
                        example_delivered_orders)) = [Some 50]
   \<and> client_error (fst (handleCancelOrder True None None 50 50 example_stale_client_ui
                        example_delivered_orders)) = None"
  by (simp add: handleCancelOrder_def cancel_button_shown_def update_where_def fetchOrderStatus_def
        select_where_def example_stale_client_ui_def example_delivered_orders_def example_order_def
        to_order_status_def Let_def)


end
